theory Spec2Isabelle
  imports Main "HOL-Library.Word"
begin

unbundle bit_operations_syntax

section \<open>Machine integers and byte buffers\<close>

type_synonym u8 = "8 word"
type_synonym u16 = "16 word"
type_synonym u32 = "32 word"

text \<open>
  A sector buffer (\<open>uint8_t *data\<close>) is a list of bytes.  The target is little-endian,
  so a 32-bit field read through a struct pointer is the little-endian value of four
  consecutive bytes, and a store through \<open>uint16_t *data16\<close> writes two bytes.
\<close>

definition le32 :: "u8 list \<Rightarrow> nat \<Rightarrow> u32" where
  "le32 d off =
     word_cat (word_cat (d ! (off + 3)) (d ! (off + 2)) :: u16)
              (word_cat (d ! (off + 1)) (d ! off) :: u16)"

definition le16_bytes :: "u16 \<Rightarrow> u8 list" where
  "le16_bytes v = [ucast v, ucast (drop_bit 8 v)]"

definition le32_bytes :: "u32 \<Rightarrow> u8 list" where
  "le32_bytes v = [ucast v, ucast (drop_bit 8 v), ucast (drop_bit 16 v), ucast (drop_bit 24 v)]"

definition read16 :: "u8 list \<Rightarrow> nat \<Rightarrow> u16" where
  "read16 d i = word_cat (d ! (2 * i + 1)) (d ! (2 * i))"

definition write16 :: "u8 list \<Rightarrow> nat \<Rightarrow> u16 \<Rightarrow> u8 list" where
  "write16 d i v = (d[2 * i := ucast v])[2 * i + 1 := ucast (drop_bit 8 v)]"

text \<open>
  \<open>store_bytes d off bs\<close> writes the bytes \<open>bs\<close> into \<open>d\<close> from offset \<open>off\<close> on
  (\<open>memcpy (d + off, bs, length bs)\<close>).
\<close>

fun store_bytes :: "u8 list \<Rightarrow> nat \<Rightarrow> u8 list \<Rightarrow> u8 list" where
  "store_bytes d off [] = d"
| "store_bytes d off (b # bs) = store_bytes (d[off := b]) (Suc off) bs"

section \<open>Build configuration\<close>

text \<open>
  The constants below are used by \<open>ghostfat.c\<close> and declared in headers that are not part
  of the sources at hand (\<open>uf2.h\<close>, \<open>board_api.h\<close>, \<open>compile_date.h\<close>, the build
  configuration).  They are parameters of the model.  Constants of compile-time integer
  arithmetic are natural numbers.
\<close>

record config =
  CFG_UF2_NUM_BLOCKS :: nat
  CFG_UF2_SECTORS_PER_CLUSTER :: nat
  MAX_BLOCKS :: nat
  BOARD_UF2_FAMILY_ID :: u32
  BOARD_FLASH_APP_START :: u32
  BOARD_FLASH_ADDR_ZERO :: u32
  UF2_MAGIC_START0 :: u32
  UF2_MAGIC_START1 :: u32
  UF2_MAGIC_END :: u32
  UF2_FLAG_NOFLASH :: u32
  UF2_FLAG_FAMILYID :: u32
  SERIALNUM_MAGIC_START0 :: u32
  SERIALNUM_MAGIC_START1 :: u32
  SERIALNUM_MAGIC_END :: u32
  SERIALNUM_OFFSET :: nat
  COMPILE_SECONDS_INT :: nat
  COMPILE_DOS_TIME :: u16
  COMPILE_DOS_DATE :: u16

section \<open>Wire records\<close>

text \<open>
  \<open>SerialNum_Block\<close> (the control block).  Its declaration is not among the sources; the
  two leading magics and the trailing magic are laid out as in \<open>UF2_Block\<close>, and the
  offset of the 6-byte serial number is the parameter \<open>SERIALNUM_OFFSET\<close>.
\<close>

record SerialNum_Block =
  magicStart0 :: u32
  magicStart1 :: u32
  serialNumber :: "u8 list"
  magicEnd :: u32

text \<open>
  \<open>UF2_Block\<close>: two start magics, flags, target address, payload size, block index,
  total blocks, family id, a 476-byte data region, end magic; 512 bytes in all.
\<close>

record UF2_Block =
  magicStart0 :: u32
  magicStart1 :: u32
  flags :: u32
  targetAddr :: u32
  payloadSize :: u32
  blockNo :: u32
  numBlocks :: u32
  familyID :: u32
  data :: "u8 list"
  magicEnd :: u32

text \<open>The casts \<open>(UF2_Block *) data\<close> and \<open>(SerialNum_Block *) data\<close>.\<close>

definition as_UF2_Block :: "u8 list \<Rightarrow> UF2_Block" where
  "as_UF2_Block d =
     \<lparr> magicStart0 = le32 d 0, magicStart1 = le32 d 4, flags = le32 d 8,
       targetAddr = le32 d 12, payloadSize = le32 d 16, blockNo = le32 d 20,
       numBlocks = le32 d 24, familyID = le32 d 28, data = take 476 (drop 32 d),
       magicEnd = le32 d 508 \<rparr>"

definition as_SerialNum_Block :: "config \<Rightarrow> u8 list \<Rightarrow> SerialNum_Block" where
  "as_SerialNum_Block cfg d =
     \<lparr> SerialNum_Block.magicStart0 = le32 d 0, SerialNum_Block.magicStart1 = le32 d 4,
       serialNumber = take 6 (drop (SERIALNUM_OFFSET cfg) d),
       SerialNum_Block.magicEnd = le32 d 508 \<rparr>"

definition is_uf2_block :: "config \<Rightarrow> UF2_Block \<Rightarrow> bool" where
  "is_uf2_block cfg bl \<longleftrightarrow>
     magicStart0 bl = UF2_MAGIC_START0 cfg \<and>
     magicStart1 bl = UF2_MAGIC_START1 cfg \<and>
     magicEnd bl = UF2_MAGIC_END cfg \<and>
     (flags bl AND UF2_FLAG_FAMILYID cfg) \<noteq> 0 \<and>
     \<not> (flags bl AND UF2_FLAG_NOFLASH cfg) \<noteq> 0"

definition is_serialnum_block :: "config \<Rightarrow> SerialNum_Block \<Rightarrow> bool" where
  "is_serialnum_block cfg bl \<longleftrightarrow>
     SerialNum_Block.magicStart0 bl = SERIALNUM_MAGIC_START0 cfg \<and>
     SerialNum_Block.magicStart1 bl = SERIALNUM_MAGIC_START1 cfg \<and>
     SerialNum_Block.magicEnd bl = SERIALNUM_MAGIC_END cfg"

section \<open>External calls\<close>

text \<open>
  Calls into the flash driver, the persistence store and the system are recorded, in
  order, as a trace of events.  \<open>esp_err_t\<close> is an integer; \<open>ESP_OK\<close> is 0.
\<close>

datatype event =
    Board_flash_write u32 "u8 list" u32
  | Board_flash_flush
  | Nvs_open
  | Nvs_set_blob string "u8 list"
  | Nvs_commit
  | Nvs_close
  | Esp_restart

definition ESP_OK :: int where "ESP_OK = 0"
definition ESP_ERR_NVS_NOT_FOUND :: int where "ESP_ERR_NVS_NOT_FOUND = 0x1102"

text \<open>The error codes the persistence store answers with during one call.\<close>

record nvs_env =
  nvs_open_err :: int
  nvs_set_blob_err :: int
  nvs_commit_err :: int

text \<open>
  \<open>serialnum_to_nvs\<close>.  The source calls \<open>esp_restart\<close> and then returns \<open>ESP_OK\<close>; the
  restart is recorded in the trace.
\<close>

definition serialnum_to_nvs :: "nvs_env \<Rightarrow> u8 list \<Rightarrow> int \<times> event list" where
  "serialnum_to_nvs env serialNumberHex =
     (if nvs_open_err env \<noteq> ESP_OK then (nvs_open_err env, [Nvs_open])
      else if nvs_set_blob_err env \<noteq> ESP_OK
        then (nvs_set_blob_err env, [Nvs_open, Nvs_set_blob ''serialnum'' serialNumberHex])
      else if nvs_commit_err env \<noteq> ESP_OK
        then (nvs_commit_err env,
              [Nvs_open, Nvs_set_blob ''serialnum'' serialNumberHex, Nvs_commit])
      else (ESP_OK,
            [Nvs_open, Nvs_set_blob ''serialnum'' serialNumberHex, Nvs_commit,
             Nvs_close, Esp_restart]))"

section \<open>Write protocol\<close>

record WriteState =
  numBlocks :: u32
  numWritten :: u32
  writtenMask :: "u8 list"

definition BPB_SECTOR_SIZE :: nat where "BPB_SECTOR_SIZE = 512"

text \<open>The "Update state num blocks if needed" step.\<close>

definition update_numBlocks :: "config \<Rightarrow> UF2_Block \<Rightarrow> WriteState \<Rightarrow> WriteState" where
  "update_numBlocks cfg bl state =
     (if numBlocks state \<noteq> UF2_Block.numBlocks bl then
        (if MAX_BLOCKS cfg \<le> unat (UF2_Block.numBlocks bl) \<or> numBlocks state \<noteq> 0
         then state\<lparr>numBlocks := 0xffffffff\<rparr>
         else state\<lparr>numBlocks := UF2_Block.numBlocks bl\<rparr>)
      else state)"

text \<open>The body of \<open>if ( bl->blockNo < MAX_BLOCKS )\<close>: mask update, counter, flush.\<close>

definition update_written :: "UF2_Block \<Rightarrow> WriteState \<Rightarrow> WriteState \<times> event list" where
  "update_written bl state =
     (let mask = (push_bit (unat (blockNo bl mod 8)) 1 :: u8);
          pos = unat (blockNo bl div 8);
          state1 = (if (writtenMask state ! pos) AND mask = 0
                    then state\<lparr>writtenMask := (writtenMask state)[pos := (writtenMask state ! pos) OR mask],
                               numWritten := numWritten state + 1\<rparr>
                    else state)
      in (state1, if numBlocks state1 \<le> numWritten state1 then [Board_flash_flush] else []))"

text \<open>
  \<open>uf2_write_block\<close>: the returned triple is the C return value, the caller's
  \<open>WriteState\<close> after the call, and the external calls made, in order.
\<close>

definition uf2_write_block ::
  "config \<Rightarrow> nvs_env \<Rightarrow> u32 \<Rightarrow> u8 list \<Rightarrow> WriteState \<Rightarrow> int \<times> WriteState \<times> event list" where
  "uf2_write_block cfg env block_no d state =
     (let bl = as_UF2_Block d in
      if \<not> is_uf2_block cfg bl then
        (let sn = as_SerialNum_Block cfg d in
         if is_serialnum_block cfg sn then
           (let (err, tr) = serialnum_to_nvs env (serialNumber sn) in
            if err \<noteq> ESP_OK then (- 1, state, tr) else (int BPB_SECTOR_SIZE, state, tr))
         else (- 1, state, []))
      else if familyID bl = BOARD_UF2_FAMILY_ID cfg then
        (let tr0 = [Board_flash_write (targetAddr bl) (data bl) (payloadSize bl)] in
         if UF2_Block.numBlocks bl \<noteq> 0 then
           (let state1 = update_numBlocks cfg bl state in
            if unat (blockNo bl) < MAX_BLOCKS cfg then
              (let (state2, tr1) = update_written bl state1
               in (int BPB_SECTOR_SIZE, state2, tr0 @ tr1))
            else (int BPB_SECTOR_SIZE, state1, tr0))
         else (int BPB_SECTOR_SIZE, state, tr0))
      else (- 1, state, []))"

section \<open>Volume geometry\<close>

definition UF2_DIV_CEIL :: "nat \<Rightarrow> nat \<Rightarrow> nat" where
  "UF2_DIV_CEIL v d = v div d + (if v mod d \<noteq> 0 then 1 else 0)"

definition BPB_SECTORS_PER_CLUSTER :: "config \<Rightarrow> nat" where
  "BPB_SECTORS_PER_CLUSTER cfg = CFG_UF2_SECTORS_PER_CLUSTER cfg"

definition BPB_RESERVED_SECTORS :: nat where "BPB_RESERVED_SECTORS = 1"
definition BPB_NUMBER_OF_FATS :: nat where "BPB_NUMBER_OF_FATS = 2"
definition BPB_ROOT_DIR_ENTRIES :: nat where "BPB_ROOT_DIR_ENTRIES = 64"

definition BPB_TOTAL_SECTORS :: "config \<Rightarrow> nat" where
  "BPB_TOTAL_SECTORS cfg = CFG_UF2_NUM_BLOCKS cfg"

definition BPB_MEDIA_DESCRIPTOR_BYTE :: u8 where "BPB_MEDIA_DESCRIPTOR_BYTE = 0xF8"
definition FAT_ENTRY_SIZE :: nat where "FAT_ENTRY_SIZE = 2"

definition FAT_ENTRIES_PER_SECTOR :: nat where
  "FAT_ENTRIES_PER_SECTOR = BPB_SECTOR_SIZE div FAT_ENTRY_SIZE"

definition FAT_END_OF_CHAIN :: u16 where "FAT_END_OF_CHAIN = 0xFFFF"

definition TOTAL_CLUSTERS_ROUND_UP :: "config \<Rightarrow> nat" where
  "TOTAL_CLUSTERS_ROUND_UP cfg = UF2_DIV_CEIL (BPB_TOTAL_SECTORS cfg) (BPB_SECTORS_PER_CLUSTER cfg)"

definition BPB_SECTORS_PER_FAT :: "config \<Rightarrow> nat" where
  "BPB_SECTORS_PER_FAT cfg = UF2_DIV_CEIL (TOTAL_CLUSTERS_ROUND_UP cfg) FAT_ENTRIES_PER_SECTOR"

text \<open>\<open>sizeof(DirEntry)\<close> is 32 (the struct is packed, and a static assertion says so).\<close>

definition sizeof_DirEntry :: nat where "sizeof_DirEntry = 32"

definition DIRENTRIES_PER_SECTOR :: nat where
  "DIRENTRIES_PER_SECTOR = BPB_SECTOR_SIZE div sizeof_DirEntry"

definition ROOT_DIR_SECTOR_COUNT :: nat where
  "ROOT_DIR_SECTOR_COUNT = UF2_DIV_CEIL BPB_ROOT_DIR_ENTRIES DIRENTRIES_PER_SECTOR"

definition BPB_BYTES_PER_CLUSTER :: "config \<Rightarrow> nat" where
  "BPB_BYTES_PER_CLUSTER cfg = BPB_SECTOR_SIZE * BPB_SECTORS_PER_CLUSTER cfg"

definition UF2_FIRMWARE_BYTES_PER_SECTOR :: nat where "UF2_FIRMWARE_BYTES_PER_SECTOR = 256"

text \<open>
  Run-time macros over the 32-bit \<open>_flash_size\<close> and \<open>_measurement_flash_size\<close>; the
  multiplication wraps as \<open>uint32_t\<close> does.
\<close>

definition UF2_SECTOR_COUNT :: "u32 \<Rightarrow> u32" where
  "UF2_SECTOR_COUNT fs = fs div of_nat UF2_FIRMWARE_BYTES_PER_SECTOR"

definition UF2_BYTE_COUNT :: "u32 \<Rightarrow> u32" where
  "UF2_BYTE_COUNT fs = UF2_SECTOR_COUNT fs * of_nat BPB_SECTOR_SIZE"

definition MEASUREMNT_SECOTR_COUNT :: "u32 \<Rightarrow> u32" where
  "MEASUREMNT_SECOTR_COUNT ms = ms div of_nat UF2_FIRMWARE_BYTES_PER_SECTOR"

definition MEASURMENT_BYTE_COUNT :: "u32 \<Rightarrow> u32" where
  "MEASURMENT_BYTE_COUNT ms = MEASUREMNT_SECOTR_COUNT ms * of_nat BPB_SECTOR_SIZE"

text \<open>
  The subtraction is on natural numbers; where the C expression would go below zero this
  gives 0, and the static assertion on \<open>CLUSTER_COUNT\<close> fails in both readings.
\<close>

definition NUM_SECTORS_IN_DATA_REGION :: "config \<Rightarrow> nat" where
  "NUM_SECTORS_IN_DATA_REGION cfg =
     BPB_TOTAL_SECTORS cfg - BPB_RESERVED_SECTORS
       - (BPB_NUMBER_OF_FATS * BPB_SECTORS_PER_FAT cfg) - ROOT_DIR_SECTOR_COUNT"

definition CLUSTER_COUNT :: "config \<Rightarrow> nat" where
  "CLUSTER_COUNT cfg = NUM_SECTORS_IN_DATA_REGION cfg div BPB_SECTORS_PER_CLUSTER cfg"

definition FS_START_FAT0_SECTOR :: nat where
  "FS_START_FAT0_SECTOR = BPB_RESERVED_SECTORS"

definition FS_START_FAT1_SECTOR :: "config \<Rightarrow> nat" where
  "FS_START_FAT1_SECTOR cfg = FS_START_FAT0_SECTOR + BPB_SECTORS_PER_FAT cfg"

definition FS_START_ROOTDIR_SECTOR :: "config \<Rightarrow> nat" where
  "FS_START_ROOTDIR_SECTOR cfg = FS_START_FAT1_SECTOR cfg + BPB_SECTORS_PER_FAT cfg"

definition FS_START_CLUSTERS_SECTOR :: "config \<Rightarrow> nat" where
  "FS_START_CLUSTERS_SECTOR cfg = FS_START_ROOTDIR_SECTOR cfg + ROOT_DIR_SECTOR_COUNT"

section \<open>File table\<close>

record FileContent =
  name :: "u8 list"
  content :: "u8 list option"
  size' :: u32
  cluster_start :: u16
  cluster_end :: u16

definition byte_of_char :: "char \<Rightarrow> u8" where
  "byte_of_char c = of_nat (of_char c)"

definition bytes_of :: "string \<Rightarrow> u8 list" where
  "bytes_of s = map byte_of_char s"

definition UF2_INDEX_URL :: string where
  "UF2_INDEX_URL = ''https://www.google.com/search?q=ENERTY+module+m''"

definition UF2_VOLUME_LABEL :: string where
  "UF2_VOLUME_LABEL = ''ENERTYMBOOT''"

definition indexFile :: "u8 list" where
  "indexFile = bytes_of
     (''<!doctype html>'' @ [CHR 0x0A] @ ''<html><body><script>'' @ [CHR 0x0A] @
      ''location.replace('' @ [CHR 0x22] @ UF2_INDEX_URL @ [CHR 0x22] @ '');'' @ [CHR 0x0A] @
      ''</script></body></html>'' @ [CHR 0x0A])"

definition test_csv_data :: "u8 list" where
  "test_csv_data = bytes_of
     (''time,CT1,CT2,CT3'' @ [CHR 0x0A] @ ''0,0,0,0'' @ [CHR 0x0A] @ ''1,1,1,1'' @ [CHR 0x0A] @
      ''2,2,2,2'' @ [CHR 0x0A] @ ''3,3,3,3'' @ [CHR 0x0A] @ ''4,4,4,4'' @ [CHR 0x0A] @
      ''5,5,5,5'' @ [CHR 0x0A] @ ''6,6,6,6'' @ [CHR 0x0A] @ ''7,7,7,7'' @ [CHR 0x0A] @
      ''8,8,8,8'' @ [CHR 0x0A] @ ''9,9,9,9'' @ [CHR 0x0A])"

text \<open>
  The static table \<open>info\<close> as its initialiser gives it (no \<open>TINYUF2_FAVICON_HEADER\<close>: the
  board header does not define it).  \<open>infoUf2File\<close> is a 384-byte buffer whose text
  depends on \<open>UF2_VERSION\<close> and \<open>COMPILE_DATE\<close>; it is a parameter.  The cluster fields
  are zero until \<open>init_starting_clusters\<close> runs.
\<close>

definition info_initial :: "u8 list \<Rightarrow> FileContent list" where
  "info_initial infoUf2File =
     [ \<lparr> name = bytes_of ''INFO_UF2TXT'', content = Some infoUf2File,
         size' = of_nat (128 * 3 - 1), cluster_start = 0, cluster_end = 0 \<rparr>,
       \<lparr> name = bytes_of ''INDEX   HTM'', content = Some indexFile,
         size' = of_nat (length indexFile), cluster_start = 0, cluster_end = 0 \<rparr>,
       \<lparr> name = bytes_of ''TEST    CSV'', content = Some test_csv_data,
         size' = of_nat (length test_csv_data), cluster_start = 0, cluster_end = 0 \<rparr>,
       \<lparr> name = bytes_of ''MEASDAT CSV'', content = None,
         size' = 0, cluster_start = 0, cluster_end = 0 \<rparr>,
       \<lparr> name = bytes_of ''CURRENT UF2'', content = None,
         size' = 0, cluster_start = 0, cluster_end = 0 \<rparr> ]"

text \<open>The file-scope state of \<open>ghostfat.c\<close>.\<close>

record ghostfat =
  flash_size :: u32
  measurement_flash_size :: u32
  info :: "FileContent list"

definition NUM_FILES :: "FileContent list \<Rightarrow> nat" where
  "NUM_FILES tab = length tab"

definition NUM_DIRENTRIES :: "FileContent list \<Rightarrow> nat" where
  "NUM_DIRENTRIES tab = NUM_FILES tab + 1"

definition FID_INFO :: nat where "FID_INFO = 0"
definition FID_INDEX :: nat where "FID_INDEX = 1"

definition FID_MEASURMENT_DATA :: "FileContent list \<Rightarrow> nat" where
  "FID_MEASURMENT_DATA tab = NUM_FILES tab - 2"

definition FID_UF2 :: "FileContent list \<Rightarrow> nat" where
  "FID_UF2 tab = NUM_FILES tab - 1"

text \<open>
  The static assertions of the source that constrain the configuration and the table.
  \<open>0 < CFG_UF2_SECTORS_PER_CLUSTER\<close> is added: the constant expressions divide by it.
\<close>

definition static_asserts :: "config \<Rightarrow> FileContent list \<Rightarrow> bool" where
  "static_asserts cfg tab \<longleftrightarrow>
     0 < BPB_SECTORS_PER_CLUSTER cfg \<and>
     (BPB_SECTORS_PER_CLUSTER cfg AND (BPB_SECTORS_PER_CLUSTER cfg - 1)) = 0 \<and>
     BPB_BYTES_PER_CLUSTER cfg \<le> 32 * 1024 \<and>
     NUM_DIRENTRIES tab < BPB_ROOT_DIR_ENTRIES \<and>
     NUM_DIRENTRIES tab < DIRENTRIES_PER_SECTOR \<and>
     0x0FF5 \<le> CLUSTER_COUNT cfg \<and> CLUSTER_COUNT cfg < 0xFFF5 \<and>
     0x1015 \<le> CLUSTER_COUNT cfg \<and> CLUSTER_COUNT cfg < 0xFFD5"

subsection \<open>Cluster allocation\<close>

text \<open>
  The loop of \<open>init_starting_clusters\<close>, from the current \<open>start_cluster\<close> over the
  remaining table entries.  The sum \<open>start_cluster + UF2_DIV_CEIL (...) - 1\<close> is computed
  in 32 bits and stored into the 16-bit field.
\<close>

fun init_starting_clusters_loop :: "config \<Rightarrow> u16 \<Rightarrow> FileContent list \<Rightarrow> FileContent list" where
  "init_starting_clusters_loop cfg start_cluster [] = []"
| "init_starting_clusters_loop cfg start_cluster (f # fs) =
     (let e = (ucast ((ucast start_cluster :: u32)
                 + of_nat (UF2_DIV_CEIL (unat (size' f)) (BPB_SECTOR_SIZE * BPB_SECTORS_PER_CLUSTER cfg))
                 - 1) :: u16)
      in f\<lparr>cluster_start := start_cluster, cluster_end := e\<rparr>
           # init_starting_clusters_loop cfg (e + 1) fs)"

definition init_starting_clusters :: "config \<Rightarrow> FileContent list \<Rightarrow> FileContent list" where
  "init_starting_clusters cfg tab = init_starting_clusters_loop cfg 2 tab"

text \<open>The loop of \<open>info_index_of\<close>, from index \<open>i\<close> on.\<close>

fun info_index_loop :: "FileContent list \<Rightarrow> u32 \<Rightarrow> nat \<Rightarrow> nat option" where
  "info_index_loop [] cluster i = None"
| "info_index_loop (f # fs) cluster i =
     (if ucast (cluster_start f) \<le> cluster \<and> cluster \<le> ucast (cluster_end f) then Some i
      else info_index_loop fs cluster (Suc i))"

definition info_index_of :: "FileContent list \<Rightarrow> u32 \<Rightarrow> nat" where
  "info_index_of tab cluster =
     (if 0xFFF0 \<le> cluster then FID_UF2 tab
      else case info_index_loop tab cluster 0 of Some i \<Rightarrow> i | None \<Rightarrow> FID_UF2 tab)"

subsection \<open>Initialisation\<close>

text \<open>
  What \<open>uf2_init\<close> learns from its collaborators: the flash size, whether
  \<open>init_nvs_partition\<close> answered \<open>ESP_OK\<close>, the value \<open>get_measurment_data_size_nvs\<close>
  returned, and the text buffer \<open>infoUf2File\<close> with its length \<open>txt_len\<close> after the
  serial number and the flash size were written into it.
\<close>

record init_env =
  board_flash_size :: u32
  nvs_init_ok :: bool
  measurment_data_size :: u32
  infoUf2File :: "u8 list"
  txt_len :: u32

text \<open>
  \<open>uf2_init\<close>, as far as the file table goes: the sizes of \<open>CURRENT.UF2\<close>, of the
  measurement data (only on the branch where the persistence store opened) and of the
  information file, then the cluster allocation.  The patching of the text itself is not
  modelled; its result is taken from the environment.
\<close>

definition uf2_init :: "config \<Rightarrow> init_env \<Rightarrow> ghostfat" where
  "uf2_init cfg ienv =
     (let fs = board_flash_size ienv;
          tab0 = info_initial (infoUf2File ienv);
          tab1 = tab0[FID_UF2 tab0 := (tab0 ! FID_UF2 tab0)\<lparr>size' := UF2_BYTE_COUNT fs\<rparr>];
          ms = (if nvs_init_ok ienv then measurment_data_size ienv else 0);
          tab2 = (if nvs_init_ok ienv
                  then tab1[FID_MEASURMENT_DATA tab1 :=
                              (tab1 ! FID_MEASURMENT_DATA tab1)\<lparr>size' := MEASURMENT_BYTE_COUNT ms\<rparr>]
                  else tab1);
          tab3 = tab2[FID_INFO := (tab2 ! FID_INFO)\<lparr>size' := txt_len ienv\<rparr>]
      in \<lparr> flash_size = fs, measurement_flash_size = ms,
           info = init_starting_clusters cfg tab3 \<rparr>)"

section \<open>Reading a sector\<close>

subsection \<open>Boot block\<close>

text \<open>
  The bytes of the packed \<open>FAT_BootBlock\<close> constant, field by field (62 bytes).  Fields
  without an initialiser are zero.
\<close>

definition BootBlock_VolumeLabel :: "u8 list" where
  "BootBlock_VolumeLabel = bytes_of UF2_VOLUME_LABEL"

definition BootBlock_bytes :: "config \<Rightarrow> u8 list" where
  "BootBlock_bytes cfg =
     [0xeb, 0x3c, 0x90] @
     bytes_of ''UF2 UF2 '' @
     le16_bytes (of_nat BPB_SECTOR_SIZE) @
     [of_nat (BPB_SECTORS_PER_CLUSTER cfg)] @
     le16_bytes (of_nat BPB_RESERVED_SECTORS) @
     [of_nat BPB_NUMBER_OF_FATS] @
     le16_bytes (of_nat BPB_ROOT_DIR_ENTRIES) @
     le16_bytes (if 0xFFFF < BPB_TOTAL_SECTORS cfg then 0 else of_nat (BPB_TOTAL_SECTORS cfg)) @
     [BPB_MEDIA_DESCRIPTOR_BYTE] @
     le16_bytes (of_nat (BPB_SECTORS_PER_FAT cfg)) @
     le16_bytes 1 @
     le16_bytes 1 @
     le32_bytes 0 @
     le32_bytes (if 0xFFFF < BPB_TOTAL_SECTORS cfg then of_nat (BPB_TOTAL_SECTORS cfg) else 0) @
     [0x80] @
     [0] @
     [0x29] @
     le32_bytes 0x00420042 @
     BootBlock_VolumeLabel @
     bytes_of ''FAT16   ''"

definition read_boot_block :: "config \<Rightarrow> u8 list \<Rightarrow> u8 list" where
  "read_boot_block cfg d0 =
     (let d1 = store_bytes d0 0 (BootBlock_bytes cfg);
          d2 = d1[510 := 0x55];
          d3 = d2[511 := 0xaa]
      in d3)"

subsection \<open>FAT sectors\<close>

text \<open>
  The body of the first loop ("set default FAT values") at index \<open>i\<close>, and the body of
  the last loop ("final cluster of each file") for one table entry.
\<close>

definition fat_default :: "u32 \<Rightarrow> u32 \<Rightarrow> nat \<Rightarrow> u8 list \<Rightarrow> u8 list" where
  "fat_default sectorFirstCluster firstUnusedCluster i d =
     (let cluster = of_nat i + sectorFirstCluster in
      if firstUnusedCluster \<le> cluster then write16 d i 0
      else write16 d i (ucast (cluster + 1)))"

definition fat_end_of_file :: "u32 \<Rightarrow> FileContent \<Rightarrow> u8 list \<Rightarrow> u8 list" where
  "fat_end_of_file sectorFirstCluster f d =
     (let lastClusterOfFile = (ucast (cluster_end f) :: u32) in
      if sectorFirstCluster \<le> lastClusterOfFile then
        (let idx = lastClusterOfFile - sectorFirstCluster in
         if unat idx < FAT_ENTRIES_PER_SECTOR then write16 d (unat idx) FAT_END_OF_CHAIN else d)
      else d)"

text \<open>
  The FAT branch of \<open>uf2_read_block\<close>; \<open>srs0\<close> is \<open>sectionRelativeSector\<close> on entry to
  the branch, \<open>block_no\<close> itself.
\<close>

definition read_fat_sector :: "config \<Rightarrow> FileContent list \<Rightarrow> u32 \<Rightarrow> u8 list \<Rightarrow> u8 list" where
  "read_fat_sector cfg tab srs0 d0 =
     (let srs1 = srs0 - of_nat FS_START_FAT0_SECTOR;
          srs = (if BPB_SECTORS_PER_FAT cfg \<le> unat srs1
                 then srs1 - of_nat (BPB_SECTORS_PER_FAT cfg) else srs1);
          sectorFirstCluster = srs * of_nat FAT_ENTRIES_PER_SECTOR;
          firstUnusedCluster = (ucast (cluster_end (tab ! FID_UF2 tab)) :: u32) + 1;
          d1 = fold (fat_default sectorFirstCluster firstUnusedCluster)
                 [0 ..< FAT_ENTRIES_PER_SECTOR] d0;
          d2 = (if srs = 0
                then write16 ((d1[0 := BPB_MEDIA_DESCRIPTOR_BYTE])[1 := 0xff]) 1 FAT_END_OF_CHAIN
                else d1);
          d3 = fold (fat_end_of_file sectorFirstCluster) tab d2
      in d3)"

subsection \<open>Root directory sectors\<close>

text \<open>
  \<open>padded_memcpy\<close>: copies until the source holds a NUL, then pads with spaces.  The
  source list is the array the pointer points into.
\<close>

fun padded_memcpy :: "u8 list \<Rightarrow> nat \<Rightarrow> u8 list" where
  "padded_memcpy src 0 = []"
| "padded_memcpy [] (Suc n) = 0x20 # padded_memcpy [] n"
| "padded_memcpy (c # cs) (Suc n) =
     (if c \<noteq> 0 then c # padded_memcpy cs n else 0x20 # padded_memcpy (c # cs) n)"

text \<open>
  A packed 32-byte \<open>DirEntry\<close>.  The name is copied with length 11 into \<open>name\<close>, so it
  runs over \<open>name\<close> and \<open>ext\<close>; the record keeps the two as one field of 11 bytes.
\<close>

record DirEntry =
  name_ext :: "u8 list"
  attrs :: u8
  reserved :: u8
  createTimeFine :: u8
  createTime :: u16
  createDate :: u16
  lastAccessDate :: u16
  highStartCluster :: u16
  updateTime :: u16
  updateDate :: u16
  startCluster :: u16
  size_bytes :: u32

definition DirEntry_bytes :: "DirEntry \<Rightarrow> u8 list" where
  "DirEntry_bytes e =
     take 11 (name_ext e @ replicate 11 0) @ [attrs e, reserved e, createTimeFine e] @
     le16_bytes (createTime e) @ le16_bytes (createDate e) @ le16_bytes (lastAccessDate e) @
     le16_bytes (highStartCluster e) @ le16_bytes (updateTime e) @ le16_bytes (updateDate e) @
     le16_bytes (startCluster e) @ le32_bytes (size_bytes e)"

text \<open>An entry of the zeroed buffer.\<close>

definition DirEntry_zero :: DirEntry where
  "DirEntry_zero =
     \<lparr> name_ext = replicate 11 0, attrs = 0, reserved = 0, createTimeFine = 0, createTime = 0,
       createDate = 0, lastAccessDate = 0, highStartCluster = 0, updateTime = 0,
       updateDate = 0, startCluster = 0, size_bytes = 0 \<rparr>"

definition volume_label_entry :: DirEntry where
  "volume_label_entry =
     DirEntry_zero \<lparr> name_ext := padded_memcpy BootBlock_VolumeLabel 11, attrs := 0x28 \<rparr>"

text \<open>The body of the loop over the files: the entry written for \<open>info[fileIndex]\<close>.\<close>

definition file_entry :: "config \<Rightarrow> ghostfat \<Rightarrow> nat \<Rightarrow> DirEntry" where
  "file_entry cfg st fileIndex =
     (let startCluster' = (ucast (cluster_start (info st ! fileIndex)) :: u32);
          inf = info st ! fileIndex
      in DirEntry_zero
           \<lparr> name_ext := padded_memcpy (name inf) 11,
             createTimeFine := of_nat (COMPILE_SECONDS_INT cfg mod 2 * 100),
             createTime := COMPILE_DOS_TIME cfg,
             createDate := COMPILE_DOS_DATE cfg,
             lastAccessDate := COMPILE_DOS_DATE cfg,
             highStartCluster := ucast (drop_bit 16 startCluster'),
             updateTime := COMPILE_DOS_TIME cfg,
             updateDate := COMPILE_DOS_DATE cfg,
             startCluster := ucast (startCluster' AND 0xFFFF),
             size_bytes := (case content inf of Some c \<Rightarrow> size' inf
                            | None \<Rightarrow> UF2_BYTE_COUNT (flash_size st)) \<rparr>)"

text \<open>
  The loop \<open>for (fileIndex = startingFileIndex; remainingEntries > 0 && fileIndex <
  NUM_FILES; fileIndex++, d++)\<close>; \<open>slot\<close> is the index of \<open>d\<close> in the sector.  The loop
  does not change \<open>remainingEntries\<close>.  A write beyond the buffer cannot happen when
  \<open>NUM_DIRENTRIES < DIRENTRIES_PER_SECTOR\<close>, which is statically asserted; the model drops
  such a write.
\<close>

function root_dir_loop ::
  "config \<Rightarrow> ghostfat \<Rightarrow> int \<Rightarrow> nat \<Rightarrow> nat \<Rightarrow> u8 list \<Rightarrow> u8 list" where
  "root_dir_loop cfg st remainingEntries fileIndex slot d =
     (if 0 < remainingEntries \<and> fileIndex < NUM_FILES (info st)
      then root_dir_loop cfg st remainingEntries (Suc fileIndex) (Suc slot)
             (store_bytes d (sizeof_DirEntry * slot) (DirEntry_bytes (file_entry cfg st fileIndex)))
      else d)"
  by pat_completeness auto
termination
  by (relation "measure (\<lambda>(cfg, st, r, fileIndex, slot, d). NUM_FILES (info st) - fileIndex)") auto

definition read_root_dir_sector :: "config \<Rightarrow> ghostfat \<Rightarrow> u32 \<Rightarrow> u8 list \<Rightarrow> u8 list" where
  "read_root_dir_sector cfg st srs0 d0 =
     (let srs = srs0 - of_nat (FS_START_ROOTDIR_SECTOR cfg);
          remainingEntries0 = int DIRENTRIES_PER_SECTOR
      in if srs = 0 then
           root_dir_loop cfg st (remainingEntries0 - 1) 0 1
             (store_bytes d0 0 (DirEntry_bytes volume_label_entry))
         else
           root_dir_loop cfg st remainingEntries0
             (unat (of_nat DIRENTRIES_PER_SECTOR * srs - 1)) 0 d0)"

subsection \<open>Data sectors\<close>

text \<open>
  The flash and the measurement store as the read calls see them: the byte at an address
  or offset.  \<open>board_flash_read (addr, buf, len)\<close> and \<open>board_measuremnt_data_read (off,
  buf, len)\<close> fill \<open>buf\<close> with \<open>len\<close> bytes from there.
\<close>

record read_env =
  flash_mem :: "u32 \<Rightarrow> u8"
  measurement_mem :: "u32 \<Rightarrow> u8"

definition board_flash_read :: "read_env \<Rightarrow> u32 \<Rightarrow> nat \<Rightarrow> u8 list" where
  "board_flash_read env addr len = map (\<lambda>i. flash_mem env (addr + of_nat i)) [0 ..< len]"

definition board_measuremnt_data_read :: "read_env \<Rightarrow> u32 \<Rightarrow> nat \<Rightarrow> u8 list" where
  "board_measuremnt_data_read env off len =
     map (\<lambda>i. measurement_mem env (off + of_nat i)) [0 ..< len]"

definition store32 :: "u8 list \<Rightarrow> nat \<Rightarrow> u32 \<Rightarrow> u8 list" where
  "store32 d off v = store_bytes d off (le32_bytes v)"

text \<open>
  The data branch of \<open>uf2_read_block\<close>.  \<open>size_t\<close> has 32 bits on the target.  A file
  other than the last two has static content; for such a file without content the C code
  would copy from a null pointer, and the model leaves the buffer as it is.
\<close>

definition read_data_sector :: "config \<Rightarrow> read_env \<Rightarrow> ghostfat \<Rightarrow> u32 \<Rightarrow> u8 list \<Rightarrow> u8 list" where
  "read_data_sector cfg env st srs0 d0 =
     (let srs = srs0 - of_nat (FS_START_CLUSTERS_SECTOR cfg);
          fid = info_index_of (info st) (2 + srs div of_nat (BPB_SECTORS_PER_CLUSTER cfg));
          inf = info st ! fid;
          fileRelativeSector =
            srs - (ucast (cluster_start (info st ! fid)) - 2) * of_nat (BPB_SECTORS_PER_CLUSTER cfg)
      in if fid \<noteq> FID_UF2 (info st) \<and> fid \<noteq> FID_MEASURMENT_DATA (info st) then
           (let fileContentStartOffset = fileRelativeSector * of_nat BPB_SECTOR_SIZE;
                fileContentLength = size' inf
            in if fileContentStartOffset < fileContentLength then
                 (let bytesToCopy0 = fileContentLength - fileContentStartOffset;
                      bytesToCopy = (if of_nat BPB_SECTOR_SIZE < bytesToCopy0
                                     then of_nat BPB_SECTOR_SIZE else bytesToCopy0)
                  in case content inf of
                       Some c \<Rightarrow> store_bytes d0 0
                                  (take (unat bytesToCopy) (drop (unat fileContentStartOffset) c))
                     | None \<Rightarrow> d0)
               else d0)
         else if fid = FID_UF2 (info st) then
           (let addr = BOARD_FLASH_APP_START cfg
                         + fileRelativeSector * of_nat UF2_FIRMWARE_BYTES_PER_SECTOR
            in if addr < BOARD_FLASH_ADDR_ZERO cfg + flash_size st then
                 (let d1 = store32 d0 0 (UF2_MAGIC_START0 cfg);
                      d2 = store32 d1 4 (UF2_MAGIC_START1 cfg);
                      d3 = store32 d2 508 (UF2_MAGIC_END cfg);
                      d4 = store32 d3 20 fileRelativeSector;
                      d5 = store32 d4 24 (UF2_SECTOR_COUNT (flash_size st));
                      d6 = store32 d5 12 addr;
                      d7 = store32 d6 16 (of_nat UF2_FIRMWARE_BYTES_PER_SECTOR);
                      d8 = store32 d7 8 (UF2_FLAG_FAMILYID cfg);
                      d9 = store32 d8 28 (BOARD_UF2_FAMILY_ID cfg)
                  in store_bytes d9 32 (board_flash_read env addr UF2_FIRMWARE_BYTES_PER_SECTOR))
               else d0)
         else
           (let fileContentStartOffset = fileRelativeSector * of_nat BPB_SECTOR_SIZE;
                fileContentLength = size' inf
            in if fileContentStartOffset < fileContentLength then
                 (let bytesToCopy0 = fileContentLength - fileContentStartOffset;
                      bytesToCopy = (if of_nat BPB_SECTOR_SIZE < bytesToCopy0
                                     then of_nat BPB_SECTOR_SIZE else bytesToCopy0)
                  in store_bytes d0 0
                       (board_measuremnt_data_read env fileContentStartOffset (unat bytesToCopy)))
               else d0))"

subsection \<open>The read entry point\<close>

text \<open>
  \<open>uf2_read_block\<close>: the buffer is cleared and then filled by the branch the sector
  number selects.  The result is the buffer after the call.
\<close>

definition uf2_read_block :: "config \<Rightarrow> read_env \<Rightarrow> ghostfat \<Rightarrow> u32 \<Rightarrow> u8 list" where
  "uf2_read_block cfg env st block_no =
     (let d0 = replicate BPB_SECTOR_SIZE (0 :: u8);
          sectionRelativeSector = block_no
      in if block_no = 0 then read_boot_block cfg d0
         else if unat block_no < FS_START_ROOTDIR_SECTOR cfg
           then read_fat_sector cfg (info st) sectionRelativeSector d0
         else if unat block_no < FS_START_CLUSTERS_SECTOR cfg
           then read_root_dir_sector cfg st sectionRelativeSector d0
         else if unat block_no < BPB_TOTAL_SECTORS cfg
           then read_data_sector cfg env st sectionRelativeSector d0
         else d0)"

text \<open>
  The bit of block index \<open>n\<close> in the written mask, read without the mask arithmetic of
  the code.
\<close>

definition bit_written :: "WriteState \<Rightarrow> nat \<Rightarrow> bool" where
  "bit_written state n = bit (writtenMask state ! (n div 8)) (n mod 8)"

text \<open>The bytes of a \<open>UF2_Block\<close>, field by field (the inverse of the cast).\<close>

definition UF2_Block_bytes :: "UF2_Block \<Rightarrow> u8 list" where
  "UF2_Block_bytes bl =
     le32_bytes (magicStart0 bl) @ le32_bytes (magicStart1 bl) @ le32_bytes (flags bl) @
     le32_bytes (targetAddr bl) @ le32_bytes (payloadSize bl) @ le32_bytes (blockNo bl) @
     le32_bytes (UF2_Block.numBlocks bl) @ le32_bytes (familyID bl) @ data bl @
     le32_bytes (magicEnd bl)"

section \<open>Reading the measurement-data size from the persistence store\<close>

text \<open>
  What one call \<open>nvs_get_blob (nvs, key, &size, &required_size)\<close> answers: its error code
  and, when it stored a value into the out buffer, that value.
\<close>

record nvs_get_blob_result =
  err :: int
  out_value :: "u32 option"

text \<open>
  \<open>get_measurment_data_size_nvs\<close>.  The local \<open>uint32_t size\<close> is declared without an
  initialiser; \<open>size0\<close> is the indeterminate value it holds before the call.
\<close>

definition get_measurment_data_size_nvs :: "u32 \<Rightarrow> nvs_get_blob_result \<Rightarrow> u32" where
  "get_measurment_data_size_nvs size0 res =
     (let size' = (case out_value res of Some v \<Rightarrow> v | None \<Rightarrow> size0) in
      if err res \<noteq> ESP_OK \<and> err res \<noteq> ESP_ERR_NVS_NOT_FOUND then 512 else size')"

text \<open>
  The number of clusters a file needs, \<open>ceil (size / bytes per cluster)\<close>; the clusters
  the whole table needs; and the set of cluster numbers between a file's \<open>cluster_start\<close>
  and \<open>cluster_end\<close>.
\<close>

definition clusters_of :: "config \<Rightarrow> FileContent \<Rightarrow> nat" where
  "clusters_of cfg f = UF2_DIV_CEIL (unat (size' f)) (BPB_BYTES_PER_CLUSTER cfg)"

definition clusters_needed :: "config \<Rightarrow> FileContent list \<Rightarrow> nat" where
  "clusters_needed cfg tab = sum_list (map (clusters_of cfg) tab)"

definition cluster_range :: "FileContent \<Rightarrow> nat set" where
  "cluster_range f = {unat (cluster_start f) .. unat (cluster_end f)}"

text \<open>
  The cluster whose entry stands at index \<open>i\<close> of the FAT sector \<open>block_no\<close>, as the
  FAT branch of \<open>uf2_read_block\<close> computes it (\<open>cluster = i + sectorFirstCluster\<close>), in
  natural numbers.  It is used for the sectors of the two FAT copies only, where the
  unsigned subtractions of the code do not wrap.
\<close>

definition fat_entry_cluster :: "config \<Rightarrow> u32 \<Rightarrow> nat \<Rightarrow> nat" where
  "fat_entry_cluster cfg block_no i =
     (let srs1 = unat block_no - FS_START_FAT0_SECTOR;
          srs = (if BPB_SECTORS_PER_FAT cfg \<le> srs1 then srs1 - BPB_SECTORS_PER_FAT cfg else srs1)
      in i + srs * FAT_ENTRIES_PER_SECTOR)"



section \<open>Example inputs\<close>

text \<open>
  A configuration with the values of the UF2 format (magics, flags), the ESP32-S2 family
  id, a 32 MiB volume of one-sector clusters and room for 16484 blocks in the write mask.
\<close>

definition example_cfg :: config where
  "example_cfg =
     \<lparr> CFG_UF2_NUM_BLOCKS = 0x10109, CFG_UF2_SECTORS_PER_CLUSTER = 1, MAX_BLOCKS = 16484,
       BOARD_UF2_FAMILY_ID = 0xbfdd4eee, BOARD_FLASH_APP_START = 0, BOARD_FLASH_ADDR_ZERO = 0,
       UF2_MAGIC_START0 = 0x0A324655, UF2_MAGIC_START1 = 0x9E5D5157, UF2_MAGIC_END = 0x0AB16F30,
       UF2_FLAG_NOFLASH = 0x00000001, UF2_FLAG_FAMILYID = 0x00002000,
       SERIALNUM_MAGIC_START0 = 0x0A324656, SERIALNUM_MAGIC_START1 = 0x9E5D5158,
       SERIALNUM_MAGIC_END = 0x0AB16F31, SERIALNUM_OFFSET = 8,
       COMPILE_SECONDS_INT = 0, COMPILE_DOS_TIME = 0, COMPILE_DOS_DATE = 0 \<rparr>"

definition example_env :: nvs_env where
  "example_env = \<lparr> nvs_open_err = 0, nvs_set_blob_err = 0, nvs_commit_err = 0 \<rparr>"

text \<open>A firmware block with block index \<open>bn\<close>, total \<open>nb\<close> and family id \<open>fam\<close>.\<close>

definition example_UF2_Block :: "u32 \<Rightarrow> u32 \<Rightarrow> u32 \<Rightarrow> UF2_Block" where
  "example_UF2_Block bn nb fam =
     \<lparr> magicStart0 = 0x0A324655, magicStart1 = 0x9E5D5157, flags = 0x00002000,
       targetAddr = 0, payloadSize = 256, blockNo = bn, numBlocks = nb, familyID = fam,
       data = replicate 476 0, magicEnd = 0x0AB16F30 \<rparr>"

definition example_block :: "u32 \<Rightarrow> u32 \<Rightarrow> u32 \<Rightarrow> u8 list" where
  "example_block bn nb fam = UF2_Block_bytes (example_UF2_Block bn nb fam)"

text \<open>A write state with total \<open>nb\<close>, counter \<open>nw\<close> and the first two mask bytes given.\<close>

definition example_state :: "u32 \<Rightarrow> u32 \<Rightarrow> u8 \<Rightarrow> u8 \<Rightarrow> WriteState" where
  "example_state nb nw m0 m1 =
     \<lparr> numBlocks = nb, numWritten = nw, writtenMask = m0 # m1 # replicate 2059 0 \<rparr>"

text \<open>A table of three files of 600, 0 and 1024 bytes.\<close>

definition example_file :: "u32 \<Rightarrow> FileContent" where
  "example_file sz = \<lparr> name = bytes_of ''EXAMPLE BIN'', content = None, size' = sz,
                        cluster_start = 0, cluster_end = 0 \<rparr>"

definition example_table :: "FileContent list" where
  "example_table = [example_file 600, example_file 0, example_file 1024]"

text \<open>
  An initialisation with 1 MiB of flash and 1024 bytes of measurement data recorded in the
  persistence store, the state it leaves, and a flash and measurement store to read from.
\<close>

definition example_init_env :: init_env where
  "example_init_env =
     \<lparr> board_flash_size = 0x100000, nvs_init_ok = True, measurment_data_size = 1024,
       infoUf2File = bytes_of ''EnertyUF2 Bootloader'' @ replicate 364 0, txt_len = 20 \<rparr>"

definition example_read_env :: read_env where
  "example_read_env = \<lparr> flash_mem = (\<lambda>a. ucast a + 1), measurement_mem = (\<lambda>a. 0x30) \<rparr>"

definition example_ghostfat :: ghostfat where
  "example_ghostfat = uf2_init example_cfg example_init_env"

text \<open>
  The same initialisation with a measurement-data size of \<open>0xFFFD00\<close> recorded in the
  persistence store: \<open>uf2_init\<close> takes the stored value as it is.
\<close>

definition example_large_init_env :: init_env where
  "example_large_init_env =
     \<lparr> board_flash_size = 0x100000, nvs_init_ok = True, measurment_data_size = 0xFFFD00,
       infoUf2File = bytes_of ''EnertyUF2 Bootloader'' @ replicate 364 0, txt_len = 20 \<rparr>"

definition example_large_ghostfat :: ghostfat where
  "example_large_ghostfat = uf2_init example_cfg example_large_init_env"



section \<open>Properties of the write protocol\<close>

lemma cat32:
  "(word_cat (word_cat (ucast (drop_bit 24 v) :: u8) (ucast (drop_bit 16 v) :: u8) :: u16)
             (word_cat (ucast (drop_bit 8 v) :: u8) (ucast v :: u8) :: u16) :: u32) = (v :: u32)"
  by (rule bit_word_eqI) (auto simp add: bit_word_cat_iff bit_ucast_iff bit_drop_bit_eq)

lemma as_UF2_Block_bytes:
  "length (data bl) = 476 \<Longrightarrow> as_UF2_Block (UF2_Block_bytes bl) = bl"
  by (simp add: as_UF2_Block_def UF2_Block_bytes_def le32_def le32_bytes_def nth_append cat32)

lemma as_UF2_Block_example:
  "as_UF2_Block (example_block bn nb fam) = example_UF2_Block bn nb fam"
  by (simp add: example_block_def as_UF2_Block_bytes example_UF2_Block_def)

lemma is_uf2_block_example: "is_uf2_block example_cfg (example_UF2_Block bn nb fam)"
  by (simp add: is_uf2_block_def example_cfg_def example_UF2_Block_def)

lemma mask_test: "((x :: u8) AND 2 ^ k = 0) = (\<not> bit x k)"
  by (rule and_exp_eq_0_iff_not_bit)

lemma mask_set: "k < 8 \<Longrightarrow> bit ((x :: u8) OR 2 ^ k) k"
  by (auto simp add: bit_or_iff bit_exp_iff)

lemma unat_mod8: "unat ((w :: u32) mod 8) = unat w mod 8"
  by (simp add: unat_mod)

lemma unat_div8: "unat ((w :: u32) div 8) = unat w div 8"
  by (simp add: unat_div)

lemma update_written_numWritten:
  "numWritten (fst (update_written bl state)) =
     (if bit_written state (unat (blockNo bl)) then numWritten state else numWritten state + 1)"
  by (simp add: update_written_def Let_def bit_written_def mask_test unat_mod8 unat_div8)

lemma update_written_bit:
  "unat (blockNo bl) div 8 < length (writtenMask state) \<Longrightarrow>
   bit_written (fst (update_written bl state)) (unat (blockNo bl))"
  by (simp add: update_written_def Let_def bit_written_def mask_test mask_set unat_mod8 unat_div8)

lemma update_written_numBlocks:
  "numBlocks (fst (update_written bl state)) = numBlocks state"
  by (simp add: update_written_def Let_def)

lemma update_written_trace:
  "snd (update_written bl state) =
     (if numBlocks (fst (update_written bl state)) \<le> numWritten (fst (update_written bl state))
      then [Board_flash_flush] else [])"
  by (simp add: update_written_def Let_def)

lemma update_numBlocks_others:
  "numWritten (update_numBlocks cfg bl state) = numWritten state"
  "writtenMask (update_numBlocks cfg bl state) = writtenMask state"
  by (simp_all add: update_numBlocks_def)

lemma uf2_write_block_reject:
  "is_uf2_block cfg (as_UF2_Block d) \<Longrightarrow> familyID (as_UF2_Block d) \<noteq> BOARD_UF2_FAMILY_ID cfg \<Longrightarrow>
   uf2_write_block cfg env block_no d state = (- 1, state, [])"
  by (simp add: uf2_write_block_def Let_def)

lemma uf2_write_block_accept:
  "is_uf2_block cfg (as_UF2_Block d) \<Longrightarrow> familyID (as_UF2_Block d) = BOARD_UF2_FAMILY_ID cfg \<Longrightarrow>
   uf2_write_block cfg env block_no d state =
     (let bl = as_UF2_Block d;
          tr0 = [Board_flash_write (targetAddr bl) (data bl) (payloadSize bl)] in
      if UF2_Block.numBlocks bl \<noteq> 0 then
        (let state1 = update_numBlocks cfg bl state in
         if unat (blockNo bl) < MAX_BLOCKS cfg then
           (int BPB_SECTOR_SIZE, fst (update_written bl state1),
            tr0 @ snd (update_written bl state1))
         else (int BPB_SECTOR_SIZE, state1, tr0))
      else (int BPB_SECTOR_SIZE, state, tr0))"
  by (simp add: uf2_write_block_def Let_def split_def)

lemma example_valid: "is_uf2_block example_cfg (as_UF2_Block (example_block bn nb fam))"
  by (simp add: as_UF2_Block_example is_uf2_block_example)

lemma example_fields:
  "familyID (as_UF2_Block (example_block bn nb fam)) = fam"
  "blockNo (as_UF2_Block (example_block bn nb fam)) = bn"
  "UF2_Block.numBlocks (as_UF2_Block (example_block bn nb fam)) = nb"
  "targetAddr (as_UF2_Block (example_block bn nb fam)) = 0"
  "payloadSize (as_UF2_Block (example_block bn nb fam)) = 256"
  "data (as_UF2_Block (example_block bn nb fam)) = replicate 476 0"
  by (simp_all add: as_UF2_Block_example example_UF2_Block_def)

lemma example_cfg_fields:
  "MAX_BLOCKS example_cfg = 16484"
  "BOARD_UF2_FAMILY_ID example_cfg = 0xbfdd4eee"
  by (simp_all add: example_cfg_def)

lemma example_state_fields:
  "numBlocks (example_state nb nw m0 m1) = nb"
  "numWritten (example_state nb nw m0 m1) = nw"
  "writtenMask (example_state nb nw m0 m1) = m0 # m1 # replicate 2059 0"
  by (simp_all add: example_state_def)

lemma uf2_write_block_example:
  "uf2_write_block example_cfg env block_no (example_block bn nb 0xbfdd4eee) state =
     (let bl = example_UF2_Block bn nb 0xbfdd4eee;
          tr0 = [Board_flash_write 0 (replicate 476 0) 256] in
      if nb \<noteq> 0 then
        (let state1 = update_numBlocks example_cfg bl state in
         if unat bn < 16484 then
           (512, fst (update_written bl state1), tr0 @ snd (update_written bl state1))
         else (512, state1, tr0))
      else (512, state, tr0))"
proof -
  have f: "familyID (as_UF2_Block (example_block bn nb 0xbfdd4eee)) = BOARD_UF2_FAMILY_ID example_cfg"
    by (simp add: example_fields example_cfg_fields)
  show ?thesis
    by (simp add: uf2_write_block_accept [OF example_valid f] example_cfg_fields
        Let_def as_UF2_Block_example BPB_SECTOR_SIZE_def example_UF2_Block_def)
qed


subsection \<open>Family mismatch\<close>

text \<open>
  Claim C7.  A block that validates as a UF2 firmware block but carries a family id other
  than the device's is rejected: the call returns -1, leaves the write state as it was
  and makes no external call at all, so in particular no flash write.
\<close>
theorem uf2_write_block_family_mismatch:
  "is_uf2_block cfg (as_UF2_Block d) \<Longrightarrow> familyID (as_UF2_Block d) \<noteq> BOARD_UF2_FAMILY_ID cfg \<Longrightarrow>
   uf2_write_block cfg env block_no d state = (- 1, state, [])"
  by (simp add: uf2_write_block_def Let_def)

theorem uf2_write_block_family_mismatch_witness:
  "is_uf2_block example_cfg (as_UF2_Block (example_block 0 10 0x12345678)) \<and>
   familyID (as_UF2_Block (example_block 0 10 0x12345678)) \<noteq> BOARD_UF2_FAMILY_ID example_cfg \<and>
   uf2_write_block example_cfg example_env 5 (example_block 0 10 0x12345678) (example_state 0 0 0 0)
     = (- 1, example_state 0 0 0 0, [])"
proof -
  have v: "is_uf2_block example_cfg (as_UF2_Block (example_block 0 10 0x12345678))"
    by (simp add: as_UF2_Block_example is_uf2_block_example)
  have f: "familyID (as_UF2_Block (example_block 0 10 0x12345678)) \<noteq> BOARD_UF2_FAMILY_ID example_cfg"
    by (simp add: as_UF2_Block_example example_UF2_Block_def example_cfg_def)
  show ?thesis using v f uf2_write_block_family_mismatch [OF v f] by simp
qed

subsection \<open>The sector number is ignored\<close>

text \<open>
  Claim C10.  Two calls that differ only in the \<open>block_no\<close> argument give the same return
  value, the same final write state and the same external calls.
\<close>
theorem uf2_write_block_ignores_block_no:
  "uf2_write_block cfg env block_no d state = uf2_write_block cfg env block_no' d state"
  by (simp add: uf2_write_block_def)

subsection \<open>The accepted-block counter\<close>

text \<open>
  Claim C6.  For a valid firmware block with a supported block index: when the bit of
  that index is already set in the written mask, \<open>numWritten\<close> is unchanged; and when
  \<open>numWritten\<close> changes, the bit was unset before the call, is set after it, and the
  counter went up by exactly one.  The mask array has \<open>MAX_BLOCKS / 8 + 1\<close> bytes, as its
  declaration says.
\<close>
theorem uf2_write_block_counter_idempotent:
  assumes "is_uf2_block cfg (as_UF2_Block d)"
    and "unat (blockNo (as_UF2_Block d)) < MAX_BLOCKS cfg"
    and "length (writtenMask state) = MAX_BLOCKS cfg div 8 + 1"
  shows "(bit_written state (unat (blockNo (as_UF2_Block d))) \<longrightarrow>
            numWritten (fst (snd (uf2_write_block cfg env block_no d state))) = numWritten state) \<and>
         (numWritten (fst (snd (uf2_write_block cfg env block_no d state))) \<noteq> numWritten state \<longrightarrow>
            \<not> bit_written state (unat (blockNo (as_UF2_Block d))) \<and>
            bit_written (fst (snd (uf2_write_block cfg env block_no d state)))
              (unat (blockNo (as_UF2_Block d))) \<and>
            numWritten (fst (snd (uf2_write_block cfg env block_no d state))) = numWritten state + 1)"
proof (cases "familyID (as_UF2_Block d) = BOARD_UF2_FAMILY_ID cfg")
  case False
  with assms(1) show ?thesis by (simp add: uf2_write_block_reject)
next
  case True
  let ?bl = "as_UF2_Block d"
  let ?s1 = "update_numBlocks cfg ?bl state"
  have pos: "unat (blockNo ?bl) div 8 < length (writtenMask ?s1)"
    using assms(2,3) by (simp add: update_numBlocks_others)
  have bw: "bit_written ?s1 n = bit_written state n" for n
    by (simp add: bit_written_def update_numBlocks_others)
  show ?thesis
    using update_written_bit[OF pos] assms(1,2) True
    by (simp add: uf2_write_block_accept Let_def update_written_numWritten bw update_numBlocks_others)
qed

theorem uf2_write_block_counter_idempotent_witness:
  "is_uf2_block example_cfg (as_UF2_Block (example_block 3 10 0xbfdd4eee)) \<and>
   unat (blockNo (as_UF2_Block (example_block 3 10 0xbfdd4eee))) < MAX_BLOCKS example_cfg \<and>
   length (writtenMask (example_state 10 1 8 0)) = MAX_BLOCKS example_cfg div 8 + 1 \<and>
   bit_written (example_state 10 1 8 0) 3 \<and>
   numWritten (fst (snd (uf2_write_block example_cfg example_env 7
      (example_block 3 10 0xbfdd4eee) (example_state 10 1 8 0)))) = 1 \<and>
   \<not> bit_written (example_state 10 0 0 0) 3 \<and>
   numWritten (fst (snd (uf2_write_block example_cfg example_env 7
      (example_block 3 10 0xbfdd4eee) (example_state 10 0 0 0)))) = 1 \<and>
   bit_written (fst (snd (uf2_write_block example_cfg example_env 7
      (example_block 3 10 0xbfdd4eee) (example_state 10 0 0 0)))) 3"
proof -
  let ?d = "example_block 3 10 0xbfdd4eee"
  have v: "is_uf2_block example_cfg (as_UF2_Block ?d)"
    by (simp add: as_UF2_Block_example is_uf2_block_example)
  have i: "unat (blockNo (as_UF2_Block ?d)) < MAX_BLOCKS example_cfg"
    by (simp add: as_UF2_Block_example example_UF2_Block_def example_cfg_def)
  have n: "unat (blockNo (as_UF2_Block ?d)) = 3"
    by (simp add: as_UF2_Block_example example_UF2_Block_def)
  have l: "length (writtenMask (example_state nb nw m0 m1)) = MAX_BLOCKS example_cfg div 8 + 1"
    for nb nw m0 m1 by (simp add: example_state_def example_cfg_def)
  have b1: "bit_written (example_state 10 1 8 0) 3"
    by (simp add: bit_written_def example_state_def)
  have b0: "\<not> bit_written (example_state 10 0 0 0) 3"
    by (simp add: bit_written_def example_state_def)
  have nw: "numWritten (example_state nb nw m0 m1) = nw" for nb nw m0 m1
    by (simp add: example_state_def)
  have f: "familyID (as_UF2_Block ?d) = BOARD_UF2_FAMILY_ID example_cfg"
    by (simp add: as_UF2_Block_example example_UF2_Block_def example_cfg_def)
  have m: "MAX_BLOCKS example_cfg = 16484" by (simp add: example_cfg_def)
  have c0: "numWritten (fst (snd (uf2_write_block example_cfg example_env 7 ?d
               (example_state 10 0 0 0)))) = 1"
    by (simp add: uf2_write_block_accept [OF v f] as_UF2_Block_example Let_def m
          update_written_numWritten update_numBlocks_others 
          example_UF2_Block_def bit_written_def example_state_def)
  show ?thesis
    using uf2_write_block_counter_idempotent [OF v i l, of 10 1 8 0 example_env 7]
          uf2_write_block_counter_idempotent [OF v i l, of 10 0 0 0 example_env 7]
          v i l b1 b0 c0
    by (simp add: n nw)
qed

subsection \<open>The expected total\<close>

text \<open>
  Claim C3, as stated, at its boundary.  A valid firmware block that declares exactly
  \<open>MAX_BLOCKS\<close> blocks, written to a state whose total is still 0: the declared total
  differs from the state's, the state holds no other nonzero total, and the declared total
  does not exceed \<open>MAX_BLOCKS\<close>; yet the state does not adopt it but takes the sentinel
  \<open>0xffffffff\<close>, because the code compares with \<open>>=\<close>.
\<close>
theorem update_total_counterexample:
  "is_uf2_block example_cfg (as_UF2_Block (example_block 0 16484 0xbfdd4eee)) \<and>
   familyID (as_UF2_Block (example_block 0 16484 0xbfdd4eee)) = BOARD_UF2_FAMILY_ID example_cfg \<and>
   UF2_Block.numBlocks (as_UF2_Block (example_block 0 16484 0xbfdd4eee)) \<noteq> 0 \<and>
   UF2_Block.numBlocks (as_UF2_Block (example_block 0 16484 0xbfdd4eee))
     \<noteq> numBlocks (example_state 0 0 0 0) \<and>
   numBlocks (example_state 0 0 0 0) = 0 \<and>
   \<not> MAX_BLOCKS example_cfg < unat (UF2_Block.numBlocks (as_UF2_Block (example_block 0 16484 0xbfdd4eee))) \<and>
   numBlocks (fst (snd (uf2_write_block example_cfg example_env 0
       (example_block 0 16484 0xbfdd4eee) (example_state 0 0 0 0))))
     \<noteq> UF2_Block.numBlocks (as_UF2_Block (example_block 0 16484 0xbfdd4eee)) \<and>
   numBlocks (fst (snd (uf2_write_block example_cfg example_env 0
       (example_block 0 16484 0xbfdd4eee) (example_state 0 0 0 0)))) = 0xffffffff"
  by (simp add: example_valid example_fields example_cfg_fields example_state_fields
        uf2_write_block_example Let_def update_written_numBlocks update_numBlocks_def
        example_UF2_Block_def)

text \<open>
  Claim C3, amended.  For a valid firmware block of the device's family that declares a
  nonzero total different from the state's current total, the call returns 512 and the
  state's total becomes the sentinel \<open>0xffffffff\<close> when the state already held a nonzero
  total or the declared total is at least \<open>MAX_BLOCKS\<close>, and the declared total otherwise.
\<close>
theorem uf2_write_block_update_total:
  assumes "is_uf2_block cfg (as_UF2_Block d)"
    and "familyID (as_UF2_Block d) = BOARD_UF2_FAMILY_ID cfg"
    and "UF2_Block.numBlocks (as_UF2_Block d) \<noteq> 0"
    and "UF2_Block.numBlocks (as_UF2_Block d) \<noteq> numBlocks state"
  shows "fst (uf2_write_block cfg env block_no d state) = 512 \<and>
         numBlocks (fst (snd (uf2_write_block cfg env block_no d state))) =
           (if numBlocks state \<noteq> 0 \<or> MAX_BLOCKS cfg \<le> unat (UF2_Block.numBlocks (as_UF2_Block d))
            then 0xffffffff else UF2_Block.numBlocks (as_UF2_Block d))"
  using assms(3,4)
  by (auto simp add: uf2_write_block_accept [OF assms(1,2)] Let_def BPB_SECTOR_SIZE_def
        update_written_numBlocks update_numBlocks_def)

theorem uf2_write_block_update_total_witness:
  "is_uf2_block example_cfg (as_UF2_Block (example_block 0 10 0xbfdd4eee)) \<and>
   familyID (as_UF2_Block (example_block 0 10 0xbfdd4eee)) = BOARD_UF2_FAMILY_ID example_cfg \<and>
   UF2_Block.numBlocks (as_UF2_Block (example_block 0 10 0xbfdd4eee)) \<noteq> 0 \<and>
   UF2_Block.numBlocks (as_UF2_Block (example_block 0 10 0xbfdd4eee))
     \<noteq> numBlocks (example_state 0 0 0 0) \<and>
   UF2_Block.numBlocks (as_UF2_Block (example_block 0 10 0xbfdd4eee))
     \<noteq> numBlocks (example_state 12 0 0 0) \<and>
   fst (uf2_write_block example_cfg example_env 0
       (example_block 0 10 0xbfdd4eee) (example_state 0 0 0 0)) = 512 \<and>
   numBlocks (fst (snd (uf2_write_block example_cfg example_env 0
       (example_block 0 10 0xbfdd4eee) (example_state 0 0 0 0)))) = 10 \<and>
   numBlocks (fst (snd (uf2_write_block example_cfg example_env 0
       (example_block 0 10 0xbfdd4eee) (example_state 12 0 0 0)))) = 0xffffffff"
proof -
  let ?d = "example_block 0 10 0xbfdd4eee"
  have f: "familyID (as_UF2_Block ?d) = BOARD_UF2_FAMILY_ID example_cfg"
    by (simp add: example_fields example_cfg_fields)
  have n: "UF2_Block.numBlocks (as_UF2_Block ?d) \<noteq> 0" by (simp add: example_fields)
  have d0: "UF2_Block.numBlocks (as_UF2_Block ?d) \<noteq> numBlocks (example_state 0 0 0 0)"
    by (simp add: example_fields example_state_fields)
  have d1: "UF2_Block.numBlocks (as_UF2_Block ?d) \<noteq> numBlocks (example_state 12 0 0 0)"
    by (simp add: example_fields example_state_fields)
  show ?thesis
    using uf2_write_block_update_total [OF example_valid f n d0, of example_env 0]
          uf2_write_block_update_total [OF example_valid f n d1, of example_env 0]
          f n d0 d1
    by (simp add: example_valid example_fields example_state_fields example_cfg_fields)
qed

subsection \<open>The flush\<close>

text \<open>
  Claim C5, as stated, at two accepted calls.  On a state whose counter has reached its
  total (10 of 10), a valid firmware block that declares total 0, and one whose block
  index is \<open>MAX_BLOCKS\<close>, are both accepted with 512; after each call the counter still
  meets the total, and no flush is issued: the flush sits inside the guards
  \<open>if ( bl->numBlocks )\<close> and \<open>if ( bl->blockNo < MAX_BLOCKS )\<close>.
\<close>
theorem flush_counterexample:
  "is_uf2_block example_cfg (as_UF2_Block (example_block 3 0 0xbfdd4eee)) \<and>
   familyID (as_UF2_Block (example_block 3 0 0xbfdd4eee)) = BOARD_UF2_FAMILY_ID example_cfg \<and>
   fst (uf2_write_block example_cfg example_env 0
       (example_block 3 0 0xbfdd4eee) (example_state 10 10 0xff 3)) = 512 \<and>
   numBlocks (fst (snd (uf2_write_block example_cfg example_env 0
       (example_block 3 0 0xbfdd4eee) (example_state 10 10 0xff 3))))
     \<le> numWritten (fst (snd (uf2_write_block example_cfg example_env 0
       (example_block 3 0 0xbfdd4eee) (example_state 10 10 0xff 3)))) \<and>
   Board_flash_flush \<notin> set (snd (snd (uf2_write_block example_cfg example_env 0
       (example_block 3 0 0xbfdd4eee) (example_state 10 10 0xff 3)))) \<and>
   is_uf2_block example_cfg (as_UF2_Block (example_block 16484 10 0xbfdd4eee)) \<and>
   familyID (as_UF2_Block (example_block 16484 10 0xbfdd4eee)) = BOARD_UF2_FAMILY_ID example_cfg \<and>
   fst (uf2_write_block example_cfg example_env 0
       (example_block 16484 10 0xbfdd4eee) (example_state 10 10 0xff 3)) = 512 \<and>
   numBlocks (fst (snd (uf2_write_block example_cfg example_env 0
       (example_block 16484 10 0xbfdd4eee) (example_state 10 10 0xff 3))))
     \<le> numWritten (fst (snd (uf2_write_block example_cfg example_env 0
       (example_block 16484 10 0xbfdd4eee) (example_state 10 10 0xff 3)))) \<and>
   Board_flash_flush \<notin> set (snd (snd (uf2_write_block example_cfg example_env 0
       (example_block 16484 10 0xbfdd4eee) (example_state 10 10 0xff 3))))"
  by (simp add: example_valid example_fields example_cfg_fields example_state_fields
        uf2_write_block_example Let_def update_numBlocks_def example_UF2_Block_def)

text \<open>
  Claim C5, amended.  For every valid firmware block of the device's family the call
  returns 512, and the external calls are the flash write followed by the flush exactly
  when the block declares a nonzero total, its block index is below \<open>MAX_BLOCKS\<close>, and
  after the update of mask and counter the counter meets or exceeds the state's total.  In
  every other case (the counter short of the total, a declared total of 0, or a block index
  of \<open>MAX_BLOCKS\<close> or more, whatever the counter) the flash write is the only external call.
\<close>
theorem uf2_write_block_flush:
  assumes "is_uf2_block cfg (as_UF2_Block d)"
    and "familyID (as_UF2_Block d) = BOARD_UF2_FAMILY_ID cfg"
  shows "fst (uf2_write_block cfg env block_no d state) = 512 \<and>
         (UF2_Block.numBlocks (as_UF2_Block d) \<noteq> 0 \<and>
          unat (blockNo (as_UF2_Block d)) < MAX_BLOCKS cfg \<and>
          numBlocks (fst (snd (uf2_write_block cfg env block_no d state)))
            \<le> numWritten (fst (snd (uf2_write_block cfg env block_no d state))) \<longrightarrow>
          snd (snd (uf2_write_block cfg env block_no d state)) =
            [Board_flash_write (targetAddr (as_UF2_Block d)) (data (as_UF2_Block d))
               (payloadSize (as_UF2_Block d)), Board_flash_flush]) \<and>
         (\<not> (UF2_Block.numBlocks (as_UF2_Block d) \<noteq> 0 \<and>
             unat (blockNo (as_UF2_Block d)) < MAX_BLOCKS cfg \<and>
             numBlocks (fst (snd (uf2_write_block cfg env block_no d state)))
               \<le> numWritten (fst (snd (uf2_write_block cfg env block_no d state)))) \<longrightarrow>
          snd (snd (uf2_write_block cfg env block_no d state)) =
            [Board_flash_write (targetAddr (as_UF2_Block d)) (data (as_UF2_Block d))
               (payloadSize (as_UF2_Block d))])"
  by (simp add: uf2_write_block_accept [OF assms(1,2)] Let_def BPB_SECTOR_SIZE_def
        update_written_trace)

theorem uf2_write_block_flush_witness:
  "is_uf2_block example_cfg (as_UF2_Block (example_block 9 10 0xbfdd4eee)) \<and>
   familyID (as_UF2_Block (example_block 9 10 0xbfdd4eee)) = BOARD_UF2_FAMILY_ID example_cfg \<and>
   UF2_Block.numBlocks (as_UF2_Block (example_block 9 10 0xbfdd4eee)) \<noteq> 0 \<and>
   unat (blockNo (as_UF2_Block (example_block 9 10 0xbfdd4eee))) < MAX_BLOCKS example_cfg \<and>
   uf2_write_block example_cfg example_env 0 (example_block 9 10 0xbfdd4eee)
       (example_state 10 9 0xff 1) =
     (512, example_state 10 10 0xff 3,
      [Board_flash_write 0 (replicate 476 0) 256, Board_flash_flush]) \<and>
   uf2_write_block example_cfg example_env 0 (example_block 9 10 0xbfdd4eee)
       (example_state 10 8 0x7f 1) =
     (512, example_state 10 9 0x7f 3, [Board_flash_write 0 (replicate 476 0) 256]) \<and>
   is_uf2_block example_cfg (as_UF2_Block (example_block 3 0 0xbfdd4eee)) \<and>
   familyID (as_UF2_Block (example_block 3 0 0xbfdd4eee)) = BOARD_UF2_FAMILY_ID example_cfg \<and>
   UF2_Block.numBlocks (as_UF2_Block (example_block 3 0 0xbfdd4eee)) = 0 \<and>
   uf2_write_block example_cfg example_env 0 (example_block 3 0 0xbfdd4eee)
       (example_state 10 10 0xff 3) =
     (512, example_state 10 10 0xff 3, [Board_flash_write 0 (replicate 476 0) 256]) \<and>
   is_uf2_block example_cfg (as_UF2_Block (example_block 16484 10 0xbfdd4eee)) \<and>
   familyID (as_UF2_Block (example_block 16484 10 0xbfdd4eee)) = BOARD_UF2_FAMILY_ID example_cfg \<and>
   \<not> unat (blockNo (as_UF2_Block (example_block 16484 10 0xbfdd4eee))) < MAX_BLOCKS example_cfg \<and>
   uf2_write_block example_cfg example_env 0 (example_block 16484 10 0xbfdd4eee)
       (example_state 10 10 0xff 3) =
     (512, example_state 10 10 0xff 3, [Board_flash_write 0 (replicate 476 0) 256])"
proof -
  let ?d = "example_block 9 10 0xbfdd4eee"
  let ?z = "example_block 3 0 0xbfdd4eee"
  let ?m = "example_block 16484 10 0xbfdd4eee"
  have f: "familyID (as_UF2_Block (example_block bn nb 0xbfdd4eee)) = BOARD_UF2_FAMILY_ID example_cfg"
    for bn nb by (simp add: example_fields example_cfg_fields)
  have n: "UF2_Block.numBlocks (as_UF2_Block ?d) \<noteq> 0" by (simp add: example_fields)
  have i: "unat (blockNo (as_UF2_Block ?d)) < MAX_BLOCKS example_cfg"
    by (simp add: example_fields example_cfg_fields)
  have n0: "UF2_Block.numBlocks (as_UF2_Block ?z) = 0" by (simp add: example_fields)
  have im: "\<not> unat (blockNo (as_UF2_Block ?m)) < MAX_BLOCKS example_cfg"
    by (simp add: example_fields example_cfg_fields)
  have s1: "fst (snd (uf2_write_block example_cfg example_env 0 ?d (example_state 10 9 0xff 1)))
              = example_state 10 10 0xff 3"
    by (simp add: uf2_write_block_example Let_def update_numBlocks_def update_written_def
          example_UF2_Block_def example_state_def)
  have s2: "fst (snd (uf2_write_block example_cfg example_env 0 ?d (example_state 10 8 0x7f 1)))
              = example_state 10 9 0x7f 3"
    by (simp add: uf2_write_block_example Let_def update_numBlocks_def update_written_def
          example_UF2_Block_def example_state_def)
  have s3: "fst (snd (uf2_write_block example_cfg example_env 0 ?z (example_state 10 10 0xff 3)))
              = example_state 10 10 0xff 3"
    by (simp add: uf2_write_block_example Let_def)
  have s4: "fst (snd (uf2_write_block example_cfg example_env 0 ?m (example_state 10 10 0xff 3)))
              = example_state 10 10 0xff 3"
    by (simp add: uf2_write_block_example Let_def update_numBlocks_def
          example_UF2_Block_def example_state_def)
  show ?thesis
    using uf2_write_block_flush [where cfg = example_cfg and d = "?d" and env = example_env
             and block_no = 0 and state = "example_state 10 9 0xff 1", OF example_valid f]
          uf2_write_block_flush [where cfg = example_cfg and d = "?d" and env = example_env
             and block_no = 0 and state = "example_state 10 8 0x7f 1", OF example_valid f]
          uf2_write_block_flush [where cfg = example_cfg and d = "?z" and env = example_env
             and block_no = 0 and state = "example_state 10 10 0xff 3", OF example_valid f]
          uf2_write_block_flush [where cfg = example_cfg and d = "?m" and env = example_env
             and block_no = 0 and state = "example_state 10 10 0xff 3", OF example_valid f]
          f n i n0 im
    by (simp add: example_valid s1 s2 s3 s4 example_state_fields example_fields prod_eq_iff)
qed

section \<open>Properties of the measurement-data size\<close>

text \<open>
  An error other than "not found" (a stored blob of the wrong length among them) gives the
  fallback 512.
\<close>
lemma get_measurment_data_size_nvs_error:
  "err res \<noteq> ESP_OK \<Longrightarrow> err res \<noteq> ESP_ERR_NVS_NOT_FOUND \<Longrightarrow>
   get_measurment_data_size_nvs size0 res = 512"
  by (simp add: get_measurment_data_size_nvs_def)

text \<open>
  Claim C4.  When the key is absent the store answers \<open>ESP_ERR_NVS_NOT_FOUND\<close> and leaves
  the out buffer alone; the function then returns the indeterminate value of its local
  \<open>size\<close>, whatever that is, and not the fallback 512.
\<close>

theorem get_measurment_data_size_nvs_absent:
  "get_measurment_data_size_nvs size0 \<lparr> err = ESP_ERR_NVS_NOT_FOUND, out_value = None \<rparr> = size0 \<and>
   get_measurment_data_size_nvs 0 \<lparr> err = ESP_ERR_NVS_NOT_FOUND, out_value = None \<rparr> \<noteq> 512"
  by (simp add: get_measurment_data_size_nvs_def)

section \<open>Properties of the cluster allocation\<close>

lemma end_cluster_eq:
  fixes s :: u16
  shows "(ucast ((ucast s :: u32) + of_nat n - 1) :: u16) = s + of_nat n - 1"
proof -
  have "(ucast s :: u32) + of_nat n - 1 = word_of_int (uint s + int n - 1)"
    by (simp add: word_of_int_hom_syms)
  also have "(ucast \<dots> :: u16) = word_of_int (uint s + int n - 1)"
    by (rule ucast_down_wi) (simp add: is_down)
  also have "\<dots> = s + of_nat n - 1"
    by simp
  finally show ?thesis .
qed

lemma end_cluster_unat:
  fixes s :: u16
  assumes "1 \<le> unat s + n" "unat s + n \<le> 65536"
  shows "unat (s + of_nat n - 1) = unat s + n - 1"
proof -
  have "s + of_nat n - 1 = (of_nat (unat s + n - 1) :: u16)"
    using assms(1) by (simp add: of_nat_diff)
  then show ?thesis using assms by (simp only: unat_of_nat) simp
qed

lemma next_start_unat:
  fixes s :: u16
  assumes "unat s + n < 65536"
  shows "unat (s + of_nat n) = unat s + n"
proof -
  have "s + of_nat n = (of_nat (unat s + n) :: u16)"
    by simp
  then show ?thesis using assms by (simp only: unat_of_nat) simp
qed

lemma loop_Cons:
  "init_starting_clusters_loop cfg s (f # fs) =
     f\<lparr>cluster_start := s, cluster_end := s + of_nat (clusters_of cfg f) - 1\<rparr>
       # init_starting_clusters_loop cfg (s + of_nat (clusters_of cfg f)) fs"
  by (simp add: Let_def end_cluster_eq clusters_of_def BPB_BYTES_PER_CLUSTER_def)

declare init_starting_clusters_loop.simps(2) [simp del]

lemma loop_length [simp]: "length (init_starting_clusters_loop cfg s tab) = length tab"
  by (induction tab arbitrary: s) (simp_all add: loop_Cons)

lemma loop_fields:
  "i < length tab \<Longrightarrow>
   size' (init_starting_clusters_loop cfg s tab ! i) = size' (tab ! i) \<and>
   content (init_starting_clusters_loop cfg s tab ! i) = content (tab ! i) \<and>
   name (init_starting_clusters_loop cfg s tab ! i) = name (tab ! i)"
proof (induction tab arbitrary: s i)
  case Nil
  then show ?case by simp
next
  case (Cons f fs)
  then show ?case by (cases i) (simp_all add: loop_Cons)
qed

lemma loop_sizes_only:
  "map size' tab1 = map size' tab2 \<Longrightarrow>
   map (\<lambda>f. (cluster_start f, cluster_end f)) (init_starting_clusters_loop cfg s tab1) =
   map (\<lambda>f. (cluster_start f, cluster_end f)) (init_starting_clusters_loop cfg s tab2)"
proof (induction tab1 arbitrary: tab2 s)
  case Nil
  then show ?case by simp
next
  case (Cons f fs)
  then obtain g gs where g: "tab2 = g # gs" "size' g = size' f" "map size' fs = map size' gs"
    by (cases tab2) auto
  have "clusters_of cfg g = clusters_of cfg f" using g(2) by (simp add: clusters_of_def)
  with Cons.IH [OF g(3)] show ?case
    by (simp add: g(1) loop_Cons)
qed

lemma loop_start0:
  "tab \<noteq> [] \<Longrightarrow> cluster_start (init_starting_clusters_loop cfg s tab ! 0) = s"
  by (cases tab) (simp_all add: loop_Cons)

lemma loop_end:
  "i < length tab \<Longrightarrow>
   cluster_end (init_starting_clusters_loop cfg s tab ! i) =
     cluster_start (init_starting_clusters_loop cfg s tab ! i) + of_nat (clusters_of cfg (tab ! i)) - 1"
proof (induction tab arbitrary: s i)
  case Nil
  then show ?case by simp
next
  case (Cons f fs)
  then show ?case by (cases i) (simp_all add: loop_Cons)
qed

lemma loop_contiguous:
  "Suc i < length tab \<Longrightarrow>
   cluster_start (init_starting_clusters_loop cfg s tab ! Suc i) =
     cluster_end (init_starting_clusters_loop cfg s tab ! i) + 1"
proof (induction tab arbitrary: s i)
  case Nil
  then show ?case by simp
next
  case (Cons f fs)
  show ?case
  proof (cases i)
    case 0
    with Cons.prems have "fs \<noteq> []" by auto
    then show ?thesis using 0
      by (simp add: loop_Cons loop_start0)
  next
    case (Suc k)
    with Cons.prems have "Suc k < length fs" by simp
    from Cons.IH [OF this] show ?thesis using Suc
      by (simp add: loop_Cons)
  qed
qed

lemma loop_start_unat:
  "unat s + clusters_needed cfg tab < 65536 \<Longrightarrow> 1 \<le> unat s \<Longrightarrow> i < length tab \<Longrightarrow>
   unat (cluster_start (init_starting_clusters_loop cfg s tab ! i)) =
     unat s + clusters_needed cfg (take i tab)"
proof (induction tab arbitrary: s i)
  case Nil
  then show ?case by simp
next
  case (Cons f fs)
  show ?case
  proof (cases i)
    case 0
    then show ?thesis
      by (simp add: loop_Cons clusters_needed_def)
  next
    case (Suc k)
    let ?s' = "s + of_nat (clusters_of cfg f)"
    have fit: "unat s + clusters_of cfg f + clusters_needed cfg fs < 65536"
      using Cons.prems(1) by (simp add: clusters_needed_def)
    then have s': "unat ?s' = unat s + clusters_of cfg f"
      by (intro next_start_unat) simp
    have "unat (cluster_start (init_starting_clusters_loop cfg ?s' fs ! k)) =
            unat ?s' + clusters_needed cfg (take k fs)"
      using Cons.prems fit Suc by (intro Cons.IH) (simp_all add: s')
    then show ?thesis using Suc
      by (simp add: loop_Cons s' clusters_needed_def)
  qed
qed

lemma clusters_needed_take_le:
  "clusters_needed cfg (take i tab) \<le> clusters_needed cfg tab"
proof -
  have "clusters_needed cfg tab = clusters_needed cfg (take i tab) + clusters_needed cfg (drop i tab)"
    unfolding clusters_needed_def by (metis append_take_drop_id map_append sum_list_append)
  then show ?thesis by simp
qed

lemma clusters_needed_take_Suc:
  "i < length tab \<Longrightarrow>
   clusters_needed cfg (take (Suc i) tab) = clusters_needed cfg (take i tab) + clusters_of cfg (tab ! i)"
  by (simp add: clusters_needed_def take_Suc_conv_app_nth)

lemma clusters_needed_take_mono:
  "i \<le> j \<Longrightarrow> clusters_needed cfg (take i tab) \<le> clusters_needed cfg (take j tab)"
  using clusters_needed_take_le [of cfg i "take j tab"] by (simp add: min_def)

lemma loop_end_unat:
  assumes "unat s + clusters_needed cfg tab < 65536" "1 \<le> unat s" "i < length tab"
  shows "unat (cluster_end (init_starting_clusters_loop cfg s tab ! i)) + 1 =
           unat s + clusters_needed cfg (take (Suc i) tab)"
proof -
  let ?st = "cluster_start (init_starting_clusters_loop cfg s tab ! i)"
  have st: "unat ?st = unat s + clusters_needed cfg (take i tab)"
    using assms by (rule loop_start_unat)
  have le: "clusters_needed cfg (take (Suc i) tab) \<le> clusters_needed cfg tab"
    by (rule clusters_needed_take_le)
  have sum: "clusters_needed cfg (take (Suc i) tab) =
               clusters_needed cfg (take i tab) + clusters_of cfg (tab ! i)"
    using assms(3) by (rule clusters_needed_take_Suc)
  have "unat (?st + of_nat (clusters_of cfg (tab ! i)) - 1) = unat ?st + clusters_of cfg (tab ! i) - 1"
    using assms(1,2) le sum st by (intro end_cluster_unat) simp_all
  then show ?thesis
    using assms(2,3) st sum by (simp add: loop_end)
qed

lemma init_start_unat:
  assumes "clusters_needed cfg tab + 2 < 65536" "i < length tab"
  shows "unat (cluster_start (init_starting_clusters cfg tab ! i)) =
           2 + clusters_needed cfg (take i tab)"
  using loop_start_unat [of 2 cfg tab i] assms by (simp add: init_starting_clusters_def)

lemma init_end_unat:
  assumes "clusters_needed cfg tab + 2 < 65536" "i < length tab"
  shows "unat (cluster_end (init_starting_clusters cfg tab ! i)) + 1 =
           2 + clusters_needed cfg (take (Suc i) tab)"
  using loop_end_unat [of 2 cfg tab i] assms by (simp add: init_starting_clusters_def)

lemma example_geometry:
  "BPB_SECTORS_PER_CLUSTER example_cfg = 1"
  "BPB_BYTES_PER_CLUSTER example_cfg = 512"
  "BPB_TOTAL_SECTORS example_cfg = 65801"
  "BPB_SECTORS_PER_FAT example_cfg = 258"
  "FS_START_ROOTDIR_SECTOR example_cfg = 517"
  "FS_START_CLUSTERS_SECTOR example_cfg = 521"
  "CLUSTER_COUNT example_cfg = 65280"
  by (simp_all add: BPB_SECTORS_PER_CLUSTER_def BPB_BYTES_PER_CLUSTER_def BPB_TOTAL_SECTORS_def
        BPB_SECTORS_PER_FAT_def TOTAL_CLUSTERS_ROUND_UP_def FAT_ENTRIES_PER_SECTOR_def
        FAT_ENTRY_SIZE_def BPB_SECTOR_SIZE_def UF2_DIV_CEIL_def FS_START_ROOTDIR_SECTOR_def
        FS_START_FAT1_SECTOR_def FS_START_FAT0_SECTOR_def BPB_RESERVED_SECTORS_def
        FS_START_CLUSTERS_SECTOR_def ROOT_DIR_SECTOR_COUNT_def BPB_ROOT_DIR_ENTRIES_def
        DIRENTRIES_PER_SECTOR_def sizeof_DirEntry_def CLUSTER_COUNT_def
        NUM_SECTORS_IN_DATA_REGION_def BPB_NUMBER_OF_FATS_def example_cfg_def)

lemma example_large_ghostfat_info:
  "map (\<lambda>f. (size' f, cluster_start f, cluster_end f)) (info example_large_ghostfat) =
     [(20, 2, 2), (130, 3, 3), (97, 4, 4), (33552896, 5, 1), (0x200000, 2, 4097)]"
  by (simp add: example_large_ghostfat_def uf2_init_def Let_def example_large_init_env_def info_initial_def
        FID_UF2_def FID_MEASURMENT_DATA_def FID_INFO_def NUM_FILES_def
        init_starting_clusters_def loop_Cons clusters_of_def UF2_DIV_CEIL_def
        example_geometry UF2_BYTE_COUNT_def UF2_SECTOR_COUNT_def MEASURMENT_BYTE_COUNT_def
        MEASUREMNT_SECOTR_COUNT_def UF2_FIRMWARE_BYTES_PER_SECTOR_def BPB_SECTOR_SIZE_def
        indexFile_def test_csv_data_def bytes_of_def UF2_INDEX_URL_def)

lemma example_large_ghostfat_length: "length (info example_large_ghostfat) = 5"
  using arg_cong [OF example_large_ghostfat_info, of length] by simp

lemma example_large_fields:
  "size' (info example_large_ghostfat ! 0) = 20"
  "cluster_start (info example_large_ghostfat ! 0) = 2"
  "cluster_end (info example_large_ghostfat ! 0) = 2"
  "size' (info example_large_ghostfat ! 3) = 33552896"
  "cluster_start (info example_large_ghostfat ! 3) = 5"
  "cluster_end (info example_large_ghostfat ! 3) = 1"
  "size' (info example_large_ghostfat ! 4) = 0x200000"
  "cluster_start (info example_large_ghostfat ! 4) = 2"
  "cluster_end (info example_large_ghostfat ! 4) = 4097"
  using arg_cong [OF example_large_ghostfat_info, of "\<lambda>l. l ! 0"]
        arg_cong [OF example_large_ghostfat_info, of "\<lambda>l. l ! 3"]
        arg_cong [OF example_large_ghostfat_info, of "\<lambda>l. l ! 4"]
  by (simp_all add: example_large_ghostfat_length)

lemma example_static_asserts:
  "length tab = 5 \<Longrightarrow> static_asserts example_cfg tab"
  by (simp add: static_asserts_def example_geometry NUM_DIRENTRIES_def NUM_FILES_def
        BPB_ROOT_DIR_ENTRIES_def DIRENTRIES_PER_SECTOR_def BPB_SECTOR_SIZE_def sizeof_DirEntry_def)

text \<open>
  Claim C9, as stated, on the table of a device whose persistence store records a
  measurement-data size of \<open>0xFFFD00\<close> (1 MiB of flash, one-sector clusters; the static
  assertions hold).  The table \<open>uf2_init\<close> leaves is what \<open>init_starting_clusters\<close>
  assigns to its sizes.  The measurement-data file of 33552896 bytes needs 65533 clusters;
  it starts at cluster 5, and its end \<open>5 + 65533 - 1 = 65537\<close> is stored into the 16-bit
  field as 1, so its range is empty.  \<open>CURRENT.UF2\<close> then starts at cluster 2 and runs to
  4097: cluster 2 belongs both to the information file and to \<open>CURRENT.UF2\<close>.
\<close>
theorem init_starting_clusters_overlap_counterexample:
  "static_asserts example_cfg (info example_large_ghostfat) \<and>
   init_starting_clusters example_cfg (info example_large_ghostfat) = info example_large_ghostfat \<and>
   length (info example_large_ghostfat) = 5 \<and>
   size' (info example_large_ghostfat ! 0) = 20 \<and>
   cluster_start (info example_large_ghostfat ! 0) = 2 \<and>
   cluster_end (info example_large_ghostfat ! 0) = 2 \<and>
   size' (info example_large_ghostfat ! 3) = 33552896 \<and>
   clusters_of example_cfg (info example_large_ghostfat ! 3) = 65533 \<and>
   cluster_start (info example_large_ghostfat ! 3) = 5 \<and>
   cluster_end (info example_large_ghostfat ! 3) = 1 \<and>
   cluster_range (info example_large_ghostfat ! 3) = {} \<and>
   size' (info example_large_ghostfat ! 4) = 0x200000 \<and>
   cluster_start (info example_large_ghostfat ! 4) = 2 \<and>
   cluster_end (info example_large_ghostfat ! 4) = 4097 \<and>
   2 \<in> cluster_range (info example_large_ghostfat ! 0) \<and>
   2 \<in> cluster_range (info example_large_ghostfat ! 4) \<and>
   cluster_range (info example_large_ghostfat ! 0) \<inter>
     cluster_range (info example_large_ghostfat ! 4) \<noteq> {}"
proof -
  have fx: "init_starting_clusters example_cfg (info example_large_ghostfat) = info example_large_ghostfat"
    by (simp add: example_large_ghostfat_def uf2_init_def Let_def example_large_init_env_def info_initial_def
        FID_UF2_def FID_MEASURMENT_DATA_def FID_INFO_def NUM_FILES_def
        init_starting_clusters_def loop_Cons clusters_of_def UF2_DIV_CEIL_def
        example_geometry UF2_BYTE_COUNT_def UF2_SECTOR_COUNT_def MEASURMENT_BYTE_COUNT_def
        MEASUREMNT_SECOTR_COUNT_def UF2_FIRMWARE_BYTES_PER_SECTOR_def BPB_SECTOR_SIZE_def
        indexFile_def test_csv_data_def bytes_of_def UF2_INDEX_URL_def)
  have m: "2 \<in> cluster_range (info example_large_ghostfat ! 0)"
          "2 \<in> cluster_range (info example_large_ghostfat ! 4)"
    by (simp_all add: cluster_range_def example_large_fields)
  then have ne: "cluster_range (info example_large_ghostfat ! 0) \<inter>
     cluster_range (info example_large_ghostfat ! 4) \<noteq> {}" by blast
  show ?thesis
    using m ne fx
    by (simp add: example_static_asserts example_large_ghostfat_length example_large_fields
          clusters_of_def UF2_DIV_CEIL_def example_geometry cluster_range_def)
qed

text \<open>
  Claim C9, amended.  \<open>init_starting_clusters\<close> is a function of the table, and the
  cluster ranges it assigns depend on the file sizes only: two tables with the same sizes
  get the same ranges.  The first file starts at cluster 2.  Each file starts at the end
  of the file before it plus one, in 16-bit arithmetic.  A file of size zero gets an end
  one below its start (in 16-bit arithmetic) and the file after it starts at the same
  cluster.  When the table needs fewer than 65534 clusters in all, every range starts at
  2 or above, holds exactly \<open>ceil (size / bytes per cluster)\<close> clusters, and the ranges of
  different files are disjoint.
\<close>

theorem init_starting_clusters_well_formed:
  "(\<forall>tab2 :: FileContent list. map size' tab2 = map size' tab \<longrightarrow>
      map (\<lambda>f. (cluster_start f, cluster_end f)) (init_starting_clusters cfg tab2) =
      map (\<lambda>f. (cluster_start f, cluster_end f)) (init_starting_clusters cfg tab)) \<and>
   length (init_starting_clusters cfg tab) = length tab \<and>
   (tab \<noteq> [] \<longrightarrow> cluster_start (init_starting_clusters cfg tab ! 0) = 2) \<and>
   (\<forall>i. Suc i < length tab \<longrightarrow>
      cluster_start (init_starting_clusters cfg tab ! Suc i) =
        cluster_end (init_starting_clusters cfg tab ! i) + 1) \<and>
   (\<forall>i. i < length tab \<and> size' (tab ! i) = 0 \<longrightarrow>
      cluster_end (init_starting_clusters cfg tab ! i) + 1 =
        cluster_start (init_starting_clusters cfg tab ! i) \<and>
      (Suc i < length tab \<longrightarrow>
         cluster_start (init_starting_clusters cfg tab ! Suc i) =
           cluster_start (init_starting_clusters cfg tab ! i))) \<and>
   (clusters_needed cfg tab + 2 < 65536 \<longrightarrow>
      (\<forall>i. i < length tab \<longrightarrow>
         2 \<le> unat (cluster_start (init_starting_clusters cfg tab ! i)) \<and>
         card (cluster_range (init_starting_clusters cfg tab ! i)) = clusters_of cfg (tab ! i)) \<and>
      (\<forall>i j. i < j \<and> j < length tab \<longrightarrow>
         cluster_range (init_starting_clusters cfg tab ! i) \<inter>
         cluster_range (init_starting_clusters cfg tab ! j) = {}))"
proof (intro conjI allI impI)
  fix tab2 :: "FileContent list" assume "map size' tab2 = map size' tab"
  then show "map (\<lambda>f. (cluster_start f, cluster_end f)) (init_starting_clusters cfg tab2) =
      map (\<lambda>f. (cluster_start f, cluster_end f)) (init_starting_clusters cfg tab)"
    unfolding init_starting_clusters_def by (rule loop_sizes_only)
next
  show "length (init_starting_clusters cfg tab) = length tab"
    by (simp add: init_starting_clusters_def)
next
  assume "tab \<noteq> []"
  then show "cluster_start (init_starting_clusters cfg tab ! 0) = 2"
    by (simp add: init_starting_clusters_def loop_start0)
next
  fix i assume "Suc i < length tab"
  then show "cluster_start (init_starting_clusters cfg tab ! Suc i) =
        cluster_end (init_starting_clusters cfg tab ! i) + 1"
    by (simp add: init_starting_clusters_def loop_contiguous)
next
  fix i assume a: "i < length tab \<and> size' (tab ! i) = 0"
  then have "clusters_of cfg (tab ! i) = 0"
    by (simp add: clusters_of_def UF2_DIV_CEIL_def)
  with a show e: "cluster_end (init_starting_clusters cfg tab ! i) + 1 =
        cluster_start (init_starting_clusters cfg tab ! i)"
    by (simp add: init_starting_clusters_def loop_end)
  assume "Suc i < length tab"
  then show "cluster_start (init_starting_clusters cfg tab ! Suc i) =
           cluster_start (init_starting_clusters cfg tab ! i)"
    using e by (simp add: init_starting_clusters_def loop_contiguous)
next
  fix i assume fit: "clusters_needed cfg tab + 2 < 65536" and i: "i < length tab"
  have st: "unat (cluster_start (init_starting_clusters cfg tab ! i)) =
              2 + clusters_needed cfg (take i tab)"
    using fit i by (rule init_start_unat)
  have en: "unat (cluster_end (init_starting_clusters cfg tab ! i)) + 1 =
              2 + clusters_needed cfg (take (Suc i) tab)"
    using fit i by (rule init_end_unat)
  show "2 \<le> unat (cluster_start (init_starting_clusters cfg tab ! i))"
    using st by simp
  show "card (cluster_range (init_starting_clusters cfg tab ! i)) = clusters_of cfg (tab ! i)"
    using st en clusters_needed_take_Suc [OF i, of cfg] by (simp add: cluster_range_def)
next
  fix i j assume fit: "clusters_needed cfg tab + 2 < 65536" and ij: "i < j \<and> j < length tab"
  have en: "unat (cluster_end (init_starting_clusters cfg tab ! i)) + 1 =
              2 + clusters_needed cfg (take (Suc i) tab)"
    using fit ij by (intro init_end_unat) simp_all
  have st: "unat (cluster_start (init_starting_clusters cfg tab ! j)) =
              2 + clusters_needed cfg (take j tab)"
    using fit ij by (intro init_start_unat) simp_all
  have "clusters_needed cfg (take (Suc i) tab) \<le> clusters_needed cfg (take j tab)"
    using ij by (intro clusters_needed_take_mono) simp
  with en st have "unat (cluster_end (init_starting_clusters cfg tab ! i))
                     < unat (cluster_start (init_starting_clusters cfg tab ! j))"
    by simp
  then show "cluster_range (init_starting_clusters cfg tab ! i) \<inter>
         cluster_range (init_starting_clusters cfg tab ! j) = {}"
    by (auto simp add: cluster_range_def)
qed

lemma example_table_init:
  "map (\<lambda>f. (cluster_start f, cluster_end f)) (init_starting_clusters example_cfg example_table)
     = [(2, 3), (4, 3), (4, 5)]"
  by (simp add: init_starting_clusters_def example_table_def example_file_def loop_Cons
        clusters_of_def UF2_DIV_CEIL_def BPB_BYTES_PER_CLUSTER_def BPB_SECTOR_SIZE_def
        BPB_SECTORS_PER_CLUSTER_def example_cfg_def)

theorem init_starting_clusters_well_formed_witness:
  "map size' example_table = map size' example_table \<and>
   example_table \<noteq> [] \<and>
   Suc 0 < length example_table \<and> Suc 1 < length example_table \<and>
   size' (example_table ! 1) = 0 \<and>
   clusters_needed example_cfg example_table + 2 < 65536 \<and>
   cluster_start (init_starting_clusters example_cfg example_table ! 0) = 2 \<and>
   cluster_start (init_starting_clusters example_cfg example_table ! Suc 0) =
     cluster_end (init_starting_clusters example_cfg example_table ! 0) + 1 \<and>
   cluster_start (init_starting_clusters example_cfg example_table ! Suc 1) =
     cluster_start (init_starting_clusters example_cfg example_table ! 1) \<and>
   card (cluster_range (init_starting_clusters example_cfg example_table ! 0)) = 2 \<and>
   card (cluster_range (init_starting_clusters example_cfg example_table ! 1)) = 0 \<and>
   cluster_range (init_starting_clusters example_cfg example_table ! 0) \<inter>
     cluster_range (init_starting_clusters example_cfg example_table ! 2) = {}"
proof -
  have l: "length example_table = 3" by (simp add: example_table_def)
  have z: "size' (example_table ! 1) = 0" by (simp add: example_table_def example_file_def)
  have c: "clusters_of example_cfg (example_table ! 0) = 2"
          "clusters_of example_cfg (example_table ! 1) = 0"
          "clusters_of example_cfg (example_table ! 2) = 2"
    by (simp_all add: example_table_def example_file_def clusters_of_def UF2_DIV_CEIL_def
          BPB_BYTES_PER_CLUSTER_def BPB_SECTOR_SIZE_def BPB_SECTORS_PER_CLUSTER_def example_cfg_def)
  have n: "clusters_needed example_cfg example_table + 2 < 65536"
    by (simp add: clusters_needed_def example_table_def example_file_def clusters_of_def UF2_DIV_CEIL_def
          BPB_BYTES_PER_CLUSTER_def BPB_SECTOR_SIZE_def BPB_SECTORS_PER_CLUSTER_def example_cfg_def)
  have ne: "example_table \<noteq> []" by (simp add: example_table_def)
  note w = init_starting_clusters_well_formed [of example_table example_cfg]
  from w have "cluster_start (init_starting_clusters example_cfg example_table ! 0) = 2"
    using ne by blast
  moreover from w have "cluster_start (init_starting_clusters example_cfg example_table ! Suc 0) =
     cluster_end (init_starting_clusters example_cfg example_table ! 0) + 1"
    using l by simp
  moreover from w have "cluster_start (init_starting_clusters example_cfg example_table ! Suc 1) =
     cluster_start (init_starting_clusters example_cfg example_table ! 1)"
    using l z by simp
  moreover from w n have "card (cluster_range (init_starting_clusters example_cfg example_table ! 0)) = 2"
    using l c by simp
  moreover from w n have "card (cluster_range (init_starting_clusters example_cfg example_table ! 1)) = 0"
    using l c by simp
  moreover from w n have "cluster_range (init_starting_clusters example_cfg example_table ! 0) \<inter>
     cluster_range (init_starting_clusters example_cfg example_table ! 2) = {}"
    using l by simp
  ultimately show ?thesis using l z n ne by simp
qed

section \<open>Properties of the buffer operations\<close>

lemma length_store_bytes [simp]: "length (store_bytes d off bs) = length d"
  by (induction bs arbitrary: d off) simp_all

lemma nth_store_bytes:
  "i < length d \<Longrightarrow>
   store_bytes d off bs ! i = (if off \<le> i \<and> i < off + length bs then bs ! (i - off) else d ! i)"
proof (induction bs arbitrary: d off)
  case Nil
  then show ?case by auto
next
  case (Cons b bs)
  have "i - off = Suc k \<Longrightarrow> i - Suc off = k" for k by arith
  with Cons show ?case
    by (auto simp add: nth_list_update nth_Cons split: nat.splits)
qed

lemma length_write16 [simp]: "length (write16 d i v) = length d"
  by (simp add: write16_def)

lemma length_store32 [simp]: "length (store32 d off v) = length d"
  by (simp add: store32_def)

lemma cat16: "(word_cat (ucast (drop_bit 8 v) :: u8) (ucast v :: u8) :: u16) = v"
  by (rule bit_word_eqI) (auto simp add: bit_word_cat_iff bit_ucast_iff bit_drop_bit_eq)

lemma read16_write16:
  "2 * j + 1 < length d \<Longrightarrow> read16 (write16 d j v) i = (if i = j then v else read16 d i)"
  by (auto simp add: read16_def write16_def nth_list_update cat16)

lemma length_fat_default [simp]: "length (fat_default a b i d) = length d"
  by (simp add: fat_default_def Let_def)

lemma length_fold_fat_default [simp]: "length (fold (fat_default a b) xs d) = length d"
  by (induction xs arbitrary: d) simp_all

lemma length_fat_end_of_file [simp]: "length (fat_end_of_file a f d) = length d"
  by (simp add: fat_end_of_file_def Let_def)

lemma length_fold_fat_end_of_file [simp]: "length (fold (fat_end_of_file a) tab d) = length d"
  by (induction tab arbitrary: d) simp_all

lemma length_read_boot_block [simp]: "length (read_boot_block cfg d) = length d"
  by (simp add: read_boot_block_def Let_def)

lemma length_read_fat_sector [simp]: "length (read_fat_sector cfg tab srs d) = length d"
  by (simp add: read_fat_sector_def Let_def)

declare root_dir_loop.simps [simp del]

lemma length_root_dir_loop [simp]: "length (root_dir_loop cfg st r fi slot d) = length d"
proof (induction cfg st r fi slot d rule: root_dir_loop.induct)
  case (1 cfg st r fi slot d)
  show ?case
  proof (cases "0 < r \<and> fi < NUM_FILES (info st)")
    case True
    then show ?thesis using 1 by (subst root_dir_loop.simps) simp
  next
    case False
    then show ?thesis by (subst root_dir_loop.simps) auto
  qed
qed

lemma length_read_root_dir_sector [simp]: "length (read_root_dir_sector cfg st srs d) = length d"
  by (simp add: read_root_dir_sector_def Let_def)

lemma length_read_data_sector [simp]: "length (read_data_sector cfg env st srs d) = length d"
  by (simp add: read_data_sector_def Let_def split: option.split)

lemma length_uf2_read_block: "length (uf2_read_block cfg env st block_no) = BPB_SECTOR_SIZE"
  by (simp add: uf2_read_block_def Let_def)

section \<open>Properties of the root directory\<close>

lemma length_le16_bytes [simp]: "length (le16_bytes v) = 2"
  by (simp add: le16_bytes_def)

lemma length_le32_bytes [simp]: "length (le32_bytes v) = 4"
  by (simp add: le32_bytes_def)

lemma length_DirEntry_bytes [simp]: "length (DirEntry_bytes e) = 32"
  by (simp add: DirEntry_bytes_def)

lemma le32_le32_bytes: "le32 (le32_bytes v) 0 = v"
  by (simp add: le32_def le32_bytes_def cat32)

lemma le32_append_right: "le32 (xs @ ys) (length xs) = le32 ys 0"
  by (simp add: le32_def nth_append numeral_2_eq_2)

lemma le32_DirEntry_bytes: "le32 (DirEntry_bytes e) 28 = size_bytes e"
proof -
  let ?pre = "take 11 (name_ext e @ replicate 11 0) @ [attrs e, reserved e, createTimeFine e] @
     le16_bytes (createTime e) @ le16_bytes (createDate e) @ le16_bytes (lastAccessDate e) @
     le16_bytes (highStartCluster e) @ le16_bytes (updateTime e) @ le16_bytes (updateDate e) @
     le16_bytes (startCluster e)"
  have l: "length ?pre = 28" by simp
  have "DirEntry_bytes e = ?pre @ le32_bytes (size_bytes e)"
    by (simp add: DirEntry_bytes_def)
  then have "le32 (DirEntry_bytes e) (length ?pre) = le32 (le32_bytes (size_bytes e)) 0"
    by (simp only: le32_append_right)
  then show ?thesis by (simp only: l le32_le32_bytes)
qed

lemma take11_DirEntry_bytes: "length (name_ext e) = 11 \<Longrightarrow> take 11 (DirEntry_bytes e) = name_ext e"
  by (simp add: DirEntry_bytes_def)

lemma root_dir_loop_below:
  "j < sizeof_DirEntry * slot \<Longrightarrow> j < length d \<Longrightarrow>
   root_dir_loop cfg st r fi slot d ! j = d ! j"
proof (induction cfg st r fi slot d rule: root_dir_loop.induct)
  case (1 cfg st r fi slot d)
  show ?case
  proof (cases "0 < r \<and> fi < NUM_FILES (info st)")
    case True
    have "root_dir_loop cfg st r (Suc fi) (Suc slot)
            (store_bytes d (sizeof_DirEntry * slot) (DirEntry_bytes (file_entry cfg st fi))) ! j
          = store_bytes d (sizeof_DirEntry * slot) (DirEntry_bytes (file_entry cfg st fi)) ! j"
      using True 1 by (intro "1.IH") simp_all
    then show ?thesis using True 1
      by (subst root_dir_loop.simps) (simp add: nth_store_bytes)
  next
    case False
    then show ?thesis by (subst root_dir_loop.simps) auto
  qed
qed

lemma root_dir_loop_entry:
  "0 < r \<Longrightarrow> fi \<le> k \<Longrightarrow> k < NUM_FILES (info st) \<Longrightarrow>
   sizeof_DirEntry * (slot + (k - fi)) + sizeof_DirEntry \<le> length d \<Longrightarrow> t < sizeof_DirEntry \<Longrightarrow>
   root_dir_loop cfg st r fi slot d ! (sizeof_DirEntry * (slot + (k - fi)) + t)
     = DirEntry_bytes (file_entry cfg st k) ! t"
proof (induction cfg st r fi slot d rule: root_dir_loop.induct)
  case (1 cfg st r fi slot d)
  let ?d' = "store_bytes d (sizeof_DirEntry * slot) (DirEntry_bytes (file_entry cfg st fi))"
  have True: "0 < r \<and> fi < NUM_FILES (info st)" using 1 by simp
  have unfold: "root_dir_loop cfg st r fi slot d = root_dir_loop cfg st r (Suc fi) (Suc slot) ?d'"
    using True by (subst root_dir_loop.simps) simp
  show ?case
  proof (cases "fi = k")
    case True
    have "root_dir_loop cfg st r (Suc fi) (Suc slot) ?d' ! (sizeof_DirEntry * slot + t)
            = ?d' ! (sizeof_DirEntry * slot + t)"
      using 1 True by (intro root_dir_loop_below) (simp_all add: sizeof_DirEntry_def)
    then have "root_dir_loop cfg st r fi slot d ! (sizeof_DirEntry * slot + t) = ?d' ! (sizeof_DirEntry * slot + t)"
      by (simp only: unfold)
    then show ?thesis using 1 True
      by (simp add: nth_store_bytes sizeof_DirEntry_def)
  next
    case False
    then have lt: "Suc fi \<le> k" using 1 by simp
    have eq: "Suc slot + (k - Suc fi) = slot + (k - fi)" using lt by simp
    have sz: "sizeof_DirEntry * (Suc slot + (k - Suc fi)) + sizeof_DirEntry \<le> length ?d'"
      using "1.prems"(4) by (simp only: eq length_store_bytes)
    have "root_dir_loop cfg st r (Suc fi) (Suc slot) ?d'
             ! (sizeof_DirEntry * (Suc slot + (k - Suc fi)) + t)
           = DirEntry_bytes (file_entry cfg st k) ! t"
      by (rule "1.IH" [OF True "1.prems"(1) lt "1.prems"(3) sz "1.prems"(5)])
    then show ?thesis by (simp only: unfold eq)
  qed
qed

lemma le32_nth_cong:
  "(\<And>t. t < 4 \<Longrightarrow> d ! (off + t) = e ! (off' + t)) \<Longrightarrow> le32 d off = le32 e off'"
proof -
  assume a: "\<And>t. t < 4 \<Longrightarrow> d ! (off + t) = e ! (off' + t)"
  from a [of 0] a [of 1] a [of 2] a [of 3] show ?thesis
    by (simp add: le32_def)
qed

text \<open>The size field of the entry of file \<open>k\<close> in the first root-directory sector.\<close>

lemma root_dir_entry_size:
  assumes "unat block_no = FS_START_ROOTDIR_SECTOR cfg" "FS_START_ROOTDIR_SECTOR cfg < 2 ^ 32" 
    and "k < NUM_FILES (info st)" "k + 1 < DIRENTRIES_PER_SECTOR"
  shows "le32 (uf2_read_block cfg env st block_no) (sizeof_DirEntry * (k + 1) + 28) =
           (case content (info st ! k) of Some c \<Rightarrow> size' (info st ! k)
            | None \<Rightarrow> UF2_BYTE_COUNT (flash_size st))"
proof -
  have b: "block_no = of_nat (FS_START_ROOTDIR_SECTOR cfg)"
    using assms(1) [symmetric] by simp
  have nz: "block_no \<noteq> 0" "\<not> unat block_no < FS_START_ROOTDIR_SECTOR cfg"
     "unat block_no < FS_START_CLUSTERS_SECTOR cfg"
    using assms(1) by (auto simp add: FS_START_ROOTDIR_SECTOR_def FS_START_FAT1_SECTOR_def
          FS_START_FAT0_SECTOR_def BPB_RESERVED_SECTORS_def FS_START_CLUSTERS_SECTOR_def
          ROOT_DIR_SECTOR_COUNT_def UF2_DIV_CEIL_def BPB_ROOT_DIR_ENTRIES_def DIRENTRIES_PER_SECTOR_def
          BPB_SECTOR_SIZE_def sizeof_DirEntry_def)
  let ?d1 = "store_bytes (replicate BPB_SECTOR_SIZE 0) 0 (DirEntry_bytes volume_label_entry)"
  have rd: "uf2_read_block cfg env st block_no =
          root_dir_loop cfg st (int DIRENTRIES_PER_SECTOR - 1) 0 1 ?d1"
    using nz by (simp add: uf2_read_block_def Let_def read_root_dir_sector_def b)
  have pos: "0 < int DIRENTRIES_PER_SECTOR - 1"
    by (simp add: DIRENTRIES_PER_SECTOR_def BPB_SECTOR_SIZE_def sizeof_DirEntry_def)
  have len: "sizeof_DirEntry * (1 + (k - 0)) + sizeof_DirEntry \<le> length ?d1"
    using assms(4) by (simp add: DIRENTRIES_PER_SECTOR_def BPB_SECTOR_SIZE_def sizeof_DirEntry_def)
  have "le32 (root_dir_loop cfg st (int DIRENTRIES_PER_SECTOR - 1) 0 1 ?d1)
           (sizeof_DirEntry * (k + 1) + 28) = le32 (DirEntry_bytes (file_entry cfg st k)) 28"
  proof (rule le32_nth_cong)
    fix t :: nat assume t: "t < 4"
    have idx: "sizeof_DirEntry * (k + 1) + 28 + t = sizeof_DirEntry * (1 + (k - 0)) + (28 + t)"
      by simp
    have t': "28 + t < sizeof_DirEntry" using t by (simp add: sizeof_DirEntry_def)
    have z: "(0::nat) \<le> k" by simp
    show "root_dir_loop cfg st (int DIRENTRIES_PER_SECTOR - 1) 0 1 ?d1
                 ! (sizeof_DirEntry * (k + 1) + 28 + t) = DirEntry_bytes (file_entry cfg st k) ! (28 + t)"
      unfolding idx by (rule root_dir_loop_entry [OF pos z assms(3) len t'])
  qed
  then show ?thesis
    by (simp add: rd le32_DirEntry_bytes file_entry_def Let_def)
qed

section \<open>The example volume\<close>

lemma example_ghostfat_flash: "flash_size example_ghostfat = 0x100000"
  by (simp add: example_ghostfat_def uf2_init_def Let_def example_init_env_def)

lemma example_ghostfat_info:
  "map (\<lambda>f. (size' f, cluster_start f, cluster_end f)) (info example_ghostfat) =
     [(20, 2, 2), (130, 3, 3), (97, 4, 4), (2048, 5, 8), (0x200000, 9, 4104)]"
  "map content (info example_ghostfat) =
     [Some (bytes_of ''EnertyUF2 Bootloader'' @ replicate 364 0), Some indexFile,
      Some test_csv_data, None, None]"
  "map name (info example_ghostfat) =
     [bytes_of ''INFO_UF2TXT'', bytes_of ''INDEX   HTM'', bytes_of ''TEST    CSV'',
      bytes_of ''MEASDAT CSV'', bytes_of ''CURRENT UF2'']"
  by (simp_all add: example_ghostfat_def uf2_init_def Let_def example_init_env_def info_initial_def
        FID_UF2_def FID_MEASURMENT_DATA_def FID_INFO_def NUM_FILES_def
        init_starting_clusters_def loop_Cons clusters_of_def UF2_DIV_CEIL_def
        example_geometry UF2_BYTE_COUNT_def UF2_SECTOR_COUNT_def MEASURMENT_BYTE_COUNT_def
        MEASUREMNT_SECOTR_COUNT_def UF2_FIRMWARE_BYTES_PER_SECTOR_def BPB_SECTOR_SIZE_def
        indexFile_def test_csv_data_def bytes_of_def UF2_INDEX_URL_def)

lemma length_padded_memcpy [simp]: "length (padded_memcpy src n) = n"
  by (induction src n rule: padded_memcpy.induct) simp_all

lemma padded_memcpy_full: "0 \<notin> set src \<Longrightarrow> length src = n \<Longrightarrow> padded_memcpy src n = src"
  by (induction src n rule: padded_memcpy.induct) auto

lemma nth_DirEntry_bytes_name:
  "length (name_ext e) = 11 \<Longrightarrow> t < 11 \<Longrightarrow> DirEntry_bytes e ! t = name_ext e ! t"
  by (simp add: DirEntry_bytes_def nth_append)

lemma root_dir_entry_name:
  assumes "unat block_no = FS_START_ROOTDIR_SECTOR cfg" "FS_START_ROOTDIR_SECTOR cfg < 2 ^ 32" 
    and "k < NUM_FILES (info st)" "k + 1 < DIRENTRIES_PER_SECTOR"
  shows "take 11 (drop (sizeof_DirEntry * (k + 1)) (uf2_read_block cfg env st block_no)) =
           padded_memcpy (name (info st ! k)) 11"
proof -
  have b: "block_no = of_nat (FS_START_ROOTDIR_SECTOR cfg)"
    using assms(1) [symmetric] by simp
  have nz: "block_no \<noteq> 0" "\<not> unat block_no < FS_START_ROOTDIR_SECTOR cfg"
     "unat block_no < FS_START_CLUSTERS_SECTOR cfg"
    using assms(1) by (auto simp add: FS_START_ROOTDIR_SECTOR_def FS_START_FAT1_SECTOR_def
          FS_START_FAT0_SECTOR_def BPB_RESERVED_SECTORS_def FS_START_CLUSTERS_SECTOR_def
          ROOT_DIR_SECTOR_COUNT_def UF2_DIV_CEIL_def BPB_ROOT_DIR_ENTRIES_def DIRENTRIES_PER_SECTOR_def
          BPB_SECTOR_SIZE_def sizeof_DirEntry_def)
  let ?d1 = "store_bytes (replicate BPB_SECTOR_SIZE 0) 0 (DirEntry_bytes volume_label_entry)"
  let ?e = "file_entry cfg st k"
  have rd: "uf2_read_block cfg env st block_no =
          root_dir_loop cfg st (int DIRENTRIES_PER_SECTOR - 1) 0 1 ?d1"
    using nz by (simp add: uf2_read_block_def Let_def read_root_dir_sector_def b)
  have pos: "0 < int DIRENTRIES_PER_SECTOR - 1"
    by (simp add: DIRENTRIES_PER_SECTOR_def BPB_SECTOR_SIZE_def sizeof_DirEntry_def)
  have len: "sizeof_DirEntry * (1 + (k - 0)) + sizeof_DirEntry \<le> length ?d1"
    using assms(4) by (simp add: DIRENTRIES_PER_SECTOR_def BPB_SECTOR_SIZE_def sizeof_DirEntry_def)
  have ne: "name_ext ?e = padded_memcpy (name (info st ! k)) 11"
    by (simp add: file_entry_def Let_def)
  have z: "(0::nat) \<le> k" by simp
  have lsec: "length (uf2_read_block cfg env st block_no) = 512"
    by (simp add: length_uf2_read_block BPB_SECTOR_SIZE_def)
  have k16: "k + 1 < 16"
    using assms(4) by (simp add: DIRENTRIES_PER_SECTOR_def BPB_SECTOR_SIZE_def sizeof_DirEntry_def)
  show ?thesis
  proof (rule nth_equalityI)
    show "length (take 11 (drop (sizeof_DirEntry * (k + 1)) (uf2_read_block cfg env st block_no))) =
            length (padded_memcpy (name (info st ! k)) 11)"
      using k16 by (simp add: lsec sizeof_DirEntry_def)
  next
    fix t assume "t < length (take 11 (drop (sizeof_DirEntry * (k + 1)) (uf2_read_block cfg env st block_no)))"
    then have t: "t < 11" by simp
    then have t': "t < sizeof_DirEntry" by (simp add: sizeof_DirEntry_def)
    have le: "sizeof_DirEntry * (k + 1) \<le> length (uf2_read_block cfg env st block_no)"
      using k16 by (simp add: lsec sizeof_DirEntry_def)
    have "take 11 (drop (sizeof_DirEntry * (k + 1)) (uf2_read_block cfg env st block_no)) ! t =
            uf2_read_block cfg env st block_no ! (sizeof_DirEntry * (k + 1) + t)"
      using t le by (simp only: nth_take nth_drop)
    also have "\<dots> = root_dir_loop cfg st (int DIRENTRIES_PER_SECTOR - 1) 0 1 ?d1
            ! (sizeof_DirEntry * (1 + (k - 0)) + t)"
      by (simp only: rd) (simp add: add.commute)
    also have "\<dots> = DirEntry_bytes ?e ! t"
      by (rule root_dir_loop_entry [OF pos z assms(3) len t'])
    also have "\<dots> = padded_memcpy (name (info st ! k)) 11 ! t"
      using t by (simp add: nth_DirEntry_bytes_name ne)
    finally show "take 11 (drop (sizeof_DirEntry * (k + 1)) (uf2_read_block cfg env st block_no)) ! t =
            padded_memcpy (name (info st ! k)) 11 ! t" .
  qed
qed

text \<open>
  Claim C1.  In the first root-directory sector of the example volume the entry in slot 4
  carries the name \<open>MEASDAT CSV\<close>.  The table gives that file the size 2048, yet the
  size field of its entry is \<open>0x200000\<close>, the byte count of the whole firmware image:
  the entry takes the image size for every file whose content pointer is null, and the
  measurement-data file has a null content pointer like \<open>CURRENT.UF2\<close>.
\<close>

theorem measdat_dir_entry_size:
  "name (info example_ghostfat ! 3) = bytes_of ''MEASDAT CSV'' \<and>
   size' (info example_ghostfat ! 3) = 2048 \<and>
   take 11 (drop (32 * 4) (uf2_read_block example_cfg example_read_env example_ghostfat 517))
     = bytes_of ''MEASDAT CSV'' \<and>
   le32 (uf2_read_block example_cfg example_read_env example_ghostfat 517) (32 * 4 + 28) = 0x200000 \<and>
   UF2_BYTE_COUNT (flash_size example_ghostfat) = 0x200000"
proof -
  have l: "length (info example_ghostfat) = 5"
    using arg_cong [OF example_ghostfat_info(2), of length] by simp
  have n: "name (info example_ghostfat ! 3) = bytes_of ''MEASDAT CSV''"
    using arg_cong [OF example_ghostfat_info(3), of "\<lambda>xs. xs ! 3"] l by simp
  have c: "content (info example_ghostfat ! 3) = None"
    using arg_cong [OF example_ghostfat_info(2), of "\<lambda>xs. xs ! 3"] l by simp
  have s: "size' (info example_ghostfat ! 3) = 2048"
    using arg_cong [OF example_ghostfat_info(1), of "\<lambda>xs. xs ! 3"] l by simp
  have b: "unat (517 :: u32) = FS_START_ROOTDIR_SECTOR example_cfg"
    by (simp add: example_geometry)
  have r: "FS_START_ROOTDIR_SECTOR example_cfg < 2 ^ 32" by (simp add: example_geometry)
  have k: "3 < NUM_FILES (info example_ghostfat)" by (simp add: NUM_FILES_def l)
  have k': "3 + 1 < DIRENTRIES_PER_SECTOR"
    by (simp add: DIRENTRIES_PER_SECTOR_def BPB_SECTOR_SIZE_def sizeof_DirEntry_def)
  have u: "UF2_BYTE_COUNT (flash_size example_ghostfat) = 0x200000"
    by (simp add: example_ghostfat_flash UF2_BYTE_COUNT_def UF2_SECTOR_COUNT_def
          UF2_FIRMWARE_BYTES_PER_SECTOR_def BPB_SECTOR_SIZE_def)
  have p: "padded_memcpy (bytes_of ''MEASDAT CSV'') 11 = bytes_of ''MEASDAT CSV''"
    by (rule padded_memcpy_full) (simp_all add: bytes_of_def byte_of_char_def)
  from root_dir_entry_size [OF b r k k', of example_read_env]
       root_dir_entry_name [OF b r k k', of example_read_env]
  show ?thesis by (simp add: n c s u p sizeof_DirEntry_def)
qed

section \<open>Properties of the FAT sectors\<close>

lemma read16_fat_default:
  "2 * j + 1 < length d \<Longrightarrow>
   read16 (fat_default sfc fu j d) i =
     (if i = j then (if fu \<le> of_nat j + sfc then 0 else ucast (of_nat j + sfc + 1))
      else read16 d i)"
  by (simp add: fat_default_def Let_def read16_write16)

lemma read16_fold_fat_default:
  assumes "length d = 512" "n \<le> 256"
  shows "read16 (fold (fat_default sfc fu) [0 ..< n] d) i =
           (if i < n then (if fu \<le> of_nat i + sfc then 0 else ucast (of_nat i + sfc + 1))
            else read16 d i)"
  using assms(2)
proof (induction n)
  case 0
  then show ?case by simp
next
  case (Suc n)
  let ?d = "fold (fat_default sfc fu) [0 ..< n] d"
  from Suc have IH: "read16 ?d i =
           (if i < n then (if fu \<le> of_nat i + sfc then 0 else ucast (of_nat i + sfc + 1))
            else read16 d i)" by simp
  have len: "2 * n + 1 < length ?d"
    using Suc.prems assms(1) by simp
  have "fold (fat_default sfc fu) [0 ..< Suc n] d = fat_default sfc fu n ?d"
    by simp
  then show ?case
    using IH by (auto simp only: read16_fat_default [OF len] less_Suc_eq split: if_splits)
qed

lemma read16_fat_end_of_file:
  assumes "length d = 512"
  shows "read16 (fat_end_of_file sfc f d) i =
           (if sfc \<le> ucast (cluster_end f) \<and> unat (ucast (cluster_end f) - sfc) = i \<and> i < 256
            then FAT_END_OF_CHAIN else read16 d i)"
proof (cases "sfc \<le> ucast (cluster_end f) \<and> unat ((ucast (cluster_end f) :: u32) - sfc) < 256")
  case True
  then have len: "2 * unat ((ucast (cluster_end f) :: u32) - sfc) + 1 < length d"
    using assms by simp
  show ?thesis using True
    by (auto simp add: fat_end_of_file_def Let_def FAT_ENTRIES_PER_SECTOR_def BPB_SECTOR_SIZE_def
          FAT_ENTRY_SIZE_def read16_write16 [OF len])
next
  case False
  then show ?thesis
    by (auto simp add: fat_end_of_file_def Let_def FAT_ENTRIES_PER_SECTOR_def BPB_SECTOR_SIZE_def
          FAT_ENTRY_SIZE_def)
qed

lemma read16_fold_fat_end_of_file:
  assumes "length d = 512"
  shows "read16 (fold (fat_end_of_file sfc) tab d) i =
           (if \<exists>f \<in> set tab. sfc \<le> ucast (cluster_end f) \<and>
                 unat (ucast (cluster_end f) - sfc) = i \<and> i < 256
            then FAT_END_OF_CHAIN else read16 d i)"
  using assms
proof (induction tab arbitrary: d)
  case Nil
  then show ?case by simp
next
  case (Cons f tab)
  have "length (fat_end_of_file sfc f d) = 512" using Cons.prems by simp
  from Cons.IH [OF this] show ?case
    using Cons.prems by (auto simp add: read16_fat_end_of_file)
qed

lemma read16_reserved:
  assumes "length d = 512"
  shows "read16 (write16 ((d[0 := a])[1 := b]) 1 v) i =
           (if i = 1 then v else if i = 0 then word_cat b a else read16 d i)"
proof -
  have len: "2 * 1 + 1 < length ((d[0 := a])[1 := b])" using assms by simp
  show ?thesis
    using assms by (auto simp add: read16_def write16_def nth_list_update cat16)
qed

text \<open>The entry at index \<open>i\<close> of a FAT sector, by the three passes of the code.\<close>

lemma read16_read_fat_sector:
  fixes cfg tab srs0 d0 i
  defines "srs1 \<equiv> srs0 - of_nat FS_START_FAT0_SECTOR"
  defines "srs \<equiv> (if BPB_SECTORS_PER_FAT cfg \<le> unat srs1
                    then srs1 - of_nat (BPB_SECTORS_PER_FAT cfg) else srs1)"
  defines "sfc \<equiv> srs * 256"
  defines "fu \<equiv> (ucast (cluster_end (tab ! FID_UF2 tab)) :: u32) + 1"
  assumes "length d0 = 512" "i < 256"
  shows "read16 (read_fat_sector cfg tab srs0 d0) i =
     (if \<exists>f \<in> set tab. sfc \<le> ucast (cluster_end f) \<and> unat (ucast (cluster_end f) - sfc) = i
      then 0xFFFF
      else if srs = 0 \<and> i = 1 then 0xFFFF
      else if srs = 0 \<and> i = 0 then 0xFFF8
      else if fu \<le> of_nat i + sfc then 0 else ucast (of_nat i + sfc + 1))"
proof -
  define sfc' where "sfc' = srs * of_nat FAT_ENTRIES_PER_SECTOR"
  define d1 where "d1 = fold (fat_default sfc' fu) [0 ..< FAT_ENTRIES_PER_SECTOR] d0"
  define d2 where "d2 = (if srs = 0
         then write16 ((d1[0 := BPB_MEDIA_DESCRIPTOR_BYTE])[1 := 0xff]) 1 FAT_END_OF_CHAIN else d1)"
  have n256: "FAT_ENTRIES_PER_SECTOR = 256"
    by (simp add: FAT_ENTRIES_PER_SECTOR_def BPB_SECTOR_SIZE_def FAT_ENTRY_SIZE_def)
  have sfc': "sfc' = sfc" by (simp add: sfc'_def sfc_def n256)
  have c: "(word_cat (0xff :: u8) (0xF8 :: u8) :: u16) = 0xFFF8" by code_simp
  have "read_fat_sector cfg tab srs0 d0 = fold (fat_end_of_file sfc') tab d2"
    unfolding read_fat_sector_def Let_def d2_def d1_def srs_def srs1_def sfc'_def fu_def
    by (rule refl)
  then have rf: "read_fat_sector cfg tab srs0 d0 = fold (fat_end_of_file sfc) tab d2"
    by (simp only: sfc')
  have l1: "length d1 = 512" using assms(5) by (simp add: d1_def)
  have l2: "length d2 = 512" using l1 by (simp add: d2_def)
  have r1: "read16 d1 i = (if fu \<le> of_nat i + sfc then 0 else ucast (of_nat i + sfc + 1))"
    using read16_fold_fat_default [OF assms(5), of 256 sfc fu i] assms(6)
    by (simp add: d1_def n256 sfc')
  have r2: "read16 d2 i =
              (if srs = 0 \<and> i = 1 then 0xFFFF else if srs = 0 \<and> i = 0 then 0xFFF8 else read16 d1 i)"
  proof (cases "srs = 0")
    case True
    then have "d2 = write16 ((d1[0 := 0xF8])[1 := 0xff]) 1 0xFFFF"
      by (simp add: d2_def BPB_MEDIA_DESCRIPTOR_BYTE_def FAT_END_OF_CHAIN_def)
    then have "read16 d2 i = (if i = 1 then 0xFFFF else if i = 0 then 0xFFF8 else read16 d1 i)"
      by (simp only: read16_reserved [OF l1] c)
    then show ?thesis using True by auto
  next
    case False
    then show ?thesis by (simp add: d2_def)
  qed
  have r3: "read16 (fold (fat_end_of_file sfc) tab d2) i =
           (if \<exists>f \<in> set tab. sfc \<le> ucast (cluster_end f) \<and>
                 unat (ucast (cluster_end f) - sfc) = i \<and> i < 256
            then FAT_END_OF_CHAIN else read16 d2 i)"
    by (rule read16_fold_fat_end_of_file [OF l2])
  show ?thesis
    using assms(6) by (simp only: rf r3 r2 r1 FAT_END_OF_CHAIN_def) simp
qed

lemma UF2_DIV_CEIL_le: "0 < d \<Longrightarrow> UF2_DIV_CEIL v d \<le> v"
proof -
  assume d: "0 < d"
  show ?thesis
  proof (cases "d = 1")
    case True
    then show ?thesis by (simp add: UF2_DIV_CEIL_def)
  next
    case False
    with d have d2: "2 \<le> d" by simp
    show ?thesis
    proof (cases "v = 0")
      case True
      then show ?thesis by (simp add: UF2_DIV_CEIL_def)
    next
      case False
      have "v div d \<le> v div 2" using d2 by (simp add: div_le_mono2)
      moreover have "v div 2 + 1 \<le> v" using False by presburger
      ultimately show ?thesis by (simp add: UF2_DIV_CEIL_def)
    qed
  qed
qed

lemma UF2_DIV_CEIL_256: "UF2_DIV_CEIL v 256 \<le> v div 256 + 1"
  by (simp add: UF2_DIV_CEIL_def)

lemma static_asserts_total_sectors:
  assumes "static_asserts cfg tab"
  shows "BPB_TOTAL_SECTORS cfg < 2 ^ 23"
proof -
  let ?n = "BPB_TOTAL_SECTORS cfg"
  let ?s = "BPB_SECTORS_PER_CLUSTER cfg"
  let ?f = "BPB_SECTORS_PER_FAT cfg"
  let ?D = "NUM_SECTORS_IN_DATA_REGION cfg"
  have s: "0 < ?s" "?s \<le> 64" and cc: "?D div ?s < 0xFFD5"
    using assms
    by (simp_all add: static_asserts_def BPB_BYTES_PER_CLUSTER_def BPB_SECTOR_SIZE_def CLUSTER_COUNT_def)
  have "?D < 0xFFD5 * ?s"
    using cc s(1) by (simp add: div_less_iff_less_mult)
  also have "\<dots> \<le> 0xFFD5 * 64" using s(2) by simp
  finally have D: "?D < 0xFFD5 * 64" .
  have "TOTAL_CLUSTERS_ROUND_UP cfg \<le> ?n"
    using s(1) by (simp add: TOTAL_CLUSTERS_ROUND_UP_def UF2_DIV_CEIL_le)
  then have "?f \<le> ?n div 256 + 1"
    using UF2_DIV_CEIL_256 [of "TOTAL_CLUSTERS_ROUND_UP cfg"]
    by (simp add: BPB_SECTORS_PER_FAT_def FAT_ENTRIES_PER_SECTOR_def BPB_SECTOR_SIZE_def
          FAT_ENTRY_SIZE_def)
  moreover have "?D = ?n - 1 - 2 * ?f - 4"
    by (simp add: NUM_SECTORS_IN_DATA_REGION_def BPB_RESERVED_SECTORS_def BPB_NUMBER_OF_FATS_def
          ROOT_DIR_SECTOR_COUNT_def UF2_DIV_CEIL_def BPB_ROOT_DIR_ENTRIES_def
          DIRENTRIES_PER_SECTOR_def BPB_SECTOR_SIZE_def sizeof_DirEntry_def)
  ultimately show ?thesis using D by simp
qed

lemma static_asserts_sectors_per_fat:
  assumes "static_asserts cfg tab"
  shows "BPB_SECTORS_PER_FAT cfg < 2 ^ 16" "FS_START_CLUSTERS_SECTOR cfg < 2 ^ 18"
proof -
  have n: "BPB_TOTAL_SECTORS cfg < 2 ^ 23" using assms by (rule static_asserts_total_sectors)
  have s: "0 < BPB_SECTORS_PER_CLUSTER cfg" using assms by (simp add: static_asserts_def)
  have "TOTAL_CLUSTERS_ROUND_UP cfg \<le> BPB_TOTAL_SECTORS cfg"
    using s by (simp add: TOTAL_CLUSTERS_ROUND_UP_def UF2_DIV_CEIL_le)
  then have "BPB_SECTORS_PER_FAT cfg \<le> BPB_TOTAL_SECTORS cfg div 256 + 1"
    using UF2_DIV_CEIL_256 [of "TOTAL_CLUSTERS_ROUND_UP cfg"]
    by (simp add: BPB_SECTORS_PER_FAT_def FAT_ENTRIES_PER_SECTOR_def BPB_SECTOR_SIZE_def
          FAT_ENTRY_SIZE_def)
  with n show f: "BPB_SECTORS_PER_FAT cfg < 2 ^ 16" by simp
  then show "FS_START_CLUSTERS_SECTOR cfg < 2 ^ 18"
    by (simp add: FS_START_CLUSTERS_SECTOR_def FS_START_ROOTDIR_SECTOR_def FS_START_FAT1_SECTOR_def
          FS_START_FAT0_SECTOR_def BPB_RESERVED_SECTORS_def ROOT_DIR_SECTOR_COUNT_def UF2_DIV_CEIL_def
          BPB_ROOT_DIR_ENTRIES_def DIRENTRIES_PER_SECTOR_def BPB_SECTOR_SIZE_def sizeof_DirEntry_def)
qed

lemma unat_of_nat32: "n < 2 ^ 32 \<Longrightarrow> unat (of_nat n :: u32) = n"
  by (simp add: unat_of_nat)

lemma unat_ucast_16_32 [simp]: "unat (ucast (w :: u16) :: u32) = unat w"
  by (simp add: unsigned_ucast_eq take_bit_nat_eq_self_iff) (rule order_less_trans [OF unsigned_less], simp)

lemma ucast_of_nat_32_16: "(ucast (of_nat n :: u32) :: u16) = of_nat n"
proof -
  have "(of_nat n :: u32) = word_of_int (int n)" by simp
  then have "(ucast (of_nat n :: u32) :: u16) = ucast (word_of_int (int n) :: u32)" by simp
  also have "\<dots> = word_of_int (int n)" by (rule ucast_down_wi) (simp add: is_down)
  finally show ?thesis by simp
qed

lemma fat_srs:
  fixes b :: u32
  assumes f: "BPB_SECTORS_PER_FAT cfg < 2 ^ 16"
    and b: "1 \<le> unat b"
  defines "srs1 \<equiv> b - of_nat FS_START_FAT0_SECTOR"
  defines "srs \<equiv> (if BPB_SECTORS_PER_FAT cfg \<le> unat srs1
                    then srs1 - of_nat (BPB_SECTORS_PER_FAT cfg) else srs1)"
  shows "unat srs = (if BPB_SECTORS_PER_FAT cfg \<le> unat b - FS_START_FAT0_SECTOR
                     then unat b - FS_START_FAT0_SECTOR - BPB_SECTORS_PER_FAT cfg
                     else unat b - FS_START_FAT0_SECTOR)"
proof -
  let ?f = "BPB_SECTORS_PER_FAT cfg"
  have one: "(1 :: u32) \<le> b" using b by (simp add: word_le_nat_alt)
  have s1: "unat srs1 = unat b - 1"
    using one by (simp add: srs1_def FS_START_FAT0_SECTOR_def BPB_RESERVED_SECTORS_def unat_sub)
  have uf: "unat (of_nat ?f :: u32) = ?f" using f by (simp add: unat_of_nat32)
  show ?thesis
  proof (cases "?f \<le> unat srs1")
    case True
    then have le: "(of_nat ?f :: u32) \<le> srs1" by (simp add: word_le_nat_alt uf)
    have "unat srs = unat srs1 - ?f"
      using True le by (simp add: srs_def unat_sub uf)
    then show ?thesis
      using True by (simp add: s1 FS_START_FAT0_SECTOR_def BPB_RESERVED_SECTORS_def)
  next
    case False
    then show ?thesis
      by (simp add: srs_def s1 FS_START_FAT0_SECTOR_def BPB_RESERVED_SECTORS_def)
  qed
qed

lemma cluster_eq_1: "c = s * 256 + i \<Longrightarrow> (c = (1::nat)) = (s = 0 \<and> i = 1)"
  by (cases s) auto

lemma cluster_eq_0: "c = s * 256 + i \<Longrightarrow> (c = (0::nat)) = (s = 0 \<and> i = 0)"
  by (cases s) auto

lemma unat_mult_256:
  fixes srs :: u32
  assumes "unat srs < 2 ^ 16"
  shows "unat (srs * 256) = unat srs * 256"
proof -
  have "unat srs * unat (256 :: u32) < 2 ^ LENGTH(32)"
    using assms by simp
  then have "unat (srs * 256) = unat srs * unat (256 :: u32)"
    by (rule unat_mult_lem [THEN iffD1])
  then show ?thesis by simp
qed

lemma unat_end_plus_1:
  fixes e :: u16
  shows "unat ((ucast e :: u32) + 1) = unat e + 1"
proof -
  have "unat e < 2 ^ 16" using unsigned_less [of e] by simp
  then have "unat (ucast e :: u32) + unat (1 :: u32) < 2 ^ LENGTH(32)" by simp
  then have "unat ((ucast e :: u32) + 1) = unat (ucast e :: u32) + unat (1 :: u32)"
    by (rule unat_add_lem [THEN iffD1])
  then show ?thesis by simp
qed

lemma fat_ends:
  fixes sfc :: u32 and e :: u16
  assumes c: "c = unat sfc + i"
  shows "(sfc \<le> ucast e \<and> unat (ucast e - sfc) = i) \<longleftrightarrow> unat e = c"
proof
  assume a: "sfc \<le> ucast e \<and> unat (ucast e - sfc) = i"
  then have le: "sfc \<le> ucast e" and ii: "unat (ucast e - sfc) = i"
    by simp_all
  have "unat ((ucast e :: u32) - sfc) = unat (ucast e :: u32) - unat sfc"
    by (rule unat_sub [OF le])
  then have d: "i = unat e - unat sfc" using ii by simp
  have "unat sfc \<le> unat e"
    using le by (simp add: word_le_nat_alt)
  then show "unat e = c" using d c by simp
next
  assume a: "unat e = c"
  then have le: "sfc \<le> ucast e"
    using c by (simp add: word_le_nat_alt)
  have "unat ((ucast e :: u32) - sfc) = unat (ucast e :: u32) - unat sfc"
    by (rule unat_sub [OF le])
  with a c le show "sfc \<le> ucast e \<and> unat (ucast e - sfc) = i"
    by simp
qed

lemma fat_index_word:
  fixes sfc :: u32
  assumes c: "c = unat sfc + i" and lt: "c < 2 ^ 32"
  shows "of_nat i + sfc = (of_nat c :: u32)" "unat (of_nat i + sfc :: u32) = c"
proof -
  show e: "of_nat i + sfc = (of_nat c :: u32)" by (simp add: c)
  show "unat (of_nat i + sfc :: u32) = c"
    unfolding e using lt by (rule unat_of_nat32)
qed

lemma fat_entry:
  fixes b :: u32
  assumes f: "BPB_SECTORS_PER_FAT cfg < 2 ^ 16"
    and b: "1 \<le> unat b" "unat b < FS_START_ROOTDIR_SECTOR cfg"
    and i: "i < 256"
  defines "c \<equiv> fat_entry_cluster cfg b i"
  shows "read16 (uf2_read_block cfg env st b) i =
     (if \<exists>f \<in> set (info st). unat (cluster_end f) = c then 0xFFFF
      else if c = 1 then 0xFFFF
      else if c = 0 then 0xFFF8
      else if unat (cluster_end (info st ! FID_UF2 (info st))) + 1 \<le> c then 0
      else of_nat (c + 1))"
proof -
  define srs1 where "srs1 = b - of_nat FS_START_FAT0_SECTOR"
  define srs where "srs = (if BPB_SECTORS_PER_FAT cfg \<le> unat srs1
                    then srs1 - of_nat (BPB_SECTORS_PER_FAT cfg) else srs1)"
  define sfc where "sfc = srs * 256"
  define fu where "fu = (ucast (cluster_end (info st ! FID_UF2 (info st))) :: u32) + 1"
  have srs: "unat srs = (if BPB_SECTORS_PER_FAT cfg \<le> unat b - FS_START_FAT0_SECTOR
                     then unat b - FS_START_FAT0_SECTOR - BPB_SECTORS_PER_FAT cfg
                     else unat b - FS_START_FAT0_SECTOR)"
    unfolding srs_def srs1_def by (rule fat_srs [OF f b(1)])
  have "unat b - FS_START_FAT0_SECTOR < 2 * BPB_SECTORS_PER_FAT cfg"
    using b by (simp add: FS_START_ROOTDIR_SECTOR_def FS_START_FAT1_SECTOR_def
          FS_START_FAT0_SECTOR_def BPB_RESERVED_SECTORS_def)
  then have "unat srs < BPB_SECTORS_PER_FAT cfg"
    unfolding srs by (simp split: if_splits) arith
  then have srs_lt: "unat srs < 2 ^ 16"
    using f by (rule order_less_trans)
  have sfc: "unat sfc = unat srs * 256"
    unfolding sfc_def using srs_lt by (rule unat_mult_256)
  have c: "c = unat sfc + i"
    unfolding c_def fat_entry_cluster_def Let_def sfc srs
    by (simp add: FAT_ENTRIES_PER_SECTOR_def BPB_SECTOR_SIZE_def FAT_ENTRY_SIZE_def)
  have c': "c = unat srs * 256 + i" by (simp only: c sfc)
  have c_lt: "c < 2 ^ 32" using c' srs_lt i by simp
  note iw = fat_index_word [OF c c_lt]
  have ends: "(sfc \<le> ucast (cluster_end g) \<and> unat (ucast (cluster_end g) - sfc) = i)
                \<longleftrightarrow> unat (cluster_end g) = c" for g :: FileContent
    by (rule fat_ends [OF c])
  have c1: "(srs = 0 \<and> i = 1) \<longleftrightarrow> c = 1"
  proof -
    have "c = 1 \<longleftrightarrow> unat srs = 0 \<and> i = 1" by (rule cluster_eq_1 [OF c'])
    moreover have "unat srs = 0 \<longleftrightarrow> srs = 0" by (rule unat_eq_0)
    ultimately show ?thesis by blast
  qed
  have c0: "(srs = 0 \<and> i = 0) \<longleftrightarrow> c = 0"
  proof -
    have "c = 0 \<longleftrightarrow> unat srs = 0 \<and> i = 0" by (rule cluster_eq_0 [OF c'])
    moreover have "unat srs = 0 \<longleftrightarrow> srs = 0" by (rule unat_eq_0)
    ultimately show ?thesis by blast
  qed
  have ufu: "unat fu = unat (cluster_end (info st ! FID_UF2 (info st))) + 1"
    unfolding fu_def by (rule unat_end_plus_1)
  have fule: "fu \<le> of_nat i + sfc \<longleftrightarrow> unat (cluster_end (info st ! FID_UF2 (info st))) + 1 \<le> c"
    by (simp only: word_le_nat_alt ufu iw(2))
  have nxt: "(ucast (of_nat i + sfc + 1 :: u32) :: u16) = of_nat (c + 1)"
  proof -
    have "of_nat i + sfc + 1 = (of_nat (c + 1) :: u32)" by (simp add: c)
    then show ?thesis by (simp only: ucast_of_nat_32_16)
  qed
  have bnz: "b \<noteq> 0" using b(1) by auto
  have rd: "uf2_read_block cfg env st b =
              read_fat_sector cfg (info st) b (replicate BPB_SECTOR_SIZE 0)"
    using bnz b(2) by (simp add: uf2_read_block_def Let_def)
  have len: "length (replicate BPB_SECTOR_SIZE (0 :: u8)) = 512" by (simp add: BPB_SECTOR_SIZE_def)
  have r: "read16 (read_fat_sector cfg (info st) b (replicate BPB_SECTOR_SIZE 0)) i =
     (if \<exists>f \<in> set (info st). sfc \<le> ucast (cluster_end f) \<and> unat (ucast (cluster_end f) - sfc) = i
      then 0xFFFF
      else if srs = 0 \<and> i = 1 then 0xFFFF
      else if srs = 0 \<and> i = 0 then 0xFFF8
      else if fu \<le> of_nat i + sfc then 0 else ucast (of_nat i + sfc + 1))"
    unfolding sfc_def srs_def srs1_def fu_def
    by (rule read16_read_fat_sector [OF len i])
  show ?thesis
    unfolding rd r by (simp only: ends c1 c0 fule nxt)
qed

lemma length_info_initial: "length (info_initial x) = 5"
  by (simp add: info_initial_def)

lemma uf2_init_info:
  "\<exists>tab. info (uf2_init cfg ienv) = init_starting_clusters cfg tab \<and> length tab = 5"
  unfolding uf2_init_def Let_def ghostfat.select_convs
  by (rule exI, rule conjI, rule refl) (simp add: length_info_initial)

lemma init_sizes:
  "map size' (init_starting_clusters cfg tab) = map size' tab"
  by (rule nth_equalityI) (simp_all add: init_starting_clusters_def loop_fields)

lemma clusters_needed_sizes:
  "map size' tab1 = map size' tab2 \<Longrightarrow> clusters_needed cfg tab1 = clusters_needed cfg tab2"
proof (induction tab1 arbitrary: tab2)
  case Nil
  then show ?case by simp
next
  case (Cons f fs)
  then obtain g gs where g: "tab2 = g # gs" "size' f = size' g" "map size' fs = map size' gs"
    by (cases tab2) auto
  from Cons.IH [OF g(3)] g(2) show ?case
    by (simp add: g(1) clusters_needed_def clusters_of_def)
qed

lemma clusters_needed_init:
  "clusters_needed cfg (init_starting_clusters cfg tab) = clusters_needed cfg tab"
  by (rule clusters_needed_sizes) (rule init_sizes)

text \<open>The table after \<open>uf2_init\<close>, when its cluster numbers fit 16 bits.\<close>

lemma uf2_init_table:
  assumes fit: "clusters_needed cfg (info (uf2_init cfg ienv)) + 2 < 65536"
  shows "length (info (uf2_init cfg ienv)) = 5"
    and "FID_UF2 (info (uf2_init cfg ienv)) = 4"
    and "FID_MEASURMENT_DATA (info (uf2_init cfg ienv)) = 3"
    and "k < 5 \<Longrightarrow> 2 \<le> unat (cluster_start (info (uf2_init cfg ienv) ! k))"
    and "k < 5 \<Longrightarrow> 1 \<le> unat (cluster_end (info (uf2_init cfg ienv) ! k))"
    and "k < 5 \<Longrightarrow> unat (cluster_end (info (uf2_init cfg ienv) ! k)) < 65535"
    and "j < k \<Longrightarrow> k < 5 \<Longrightarrow> unat (cluster_end (info (uf2_init cfg ienv) ! j))
            < unat (cluster_start (info (uf2_init cfg ienv) ! k))"
    and "j \<le> k \<Longrightarrow> k < 5 \<Longrightarrow> unat (cluster_end (info (uf2_init cfg ienv) ! j))
            \<le> unat (cluster_end (info (uf2_init cfg ienv) ! k))"
    and "k < 5 \<Longrightarrow> unat (cluster_end (info (uf2_init cfg ienv) ! k)) + 1 =
            unat (cluster_start (info (uf2_init cfg ienv) ! k))
              + clusters_of cfg (info (uf2_init cfg ienv) ! k)"
proof -
  obtain tab where t: "info (uf2_init cfg ienv) = init_starting_clusters cfg tab" and l: "length tab = 5"
    using uf2_init_info by blast
  have fit': "clusters_needed cfg tab + 2 < 65536"
    using fit by (simp add: t clusters_needed_init)
  have S: "unat (cluster_start (info (uf2_init cfg ienv) ! k)) = 2 + clusters_needed cfg (take k tab)"
    if "k < 5" for k
    unfolding t using fit' that l by (intro init_start_unat) simp_all
  have E: "unat (cluster_end (info (uf2_init cfg ienv) ! k)) + 1 = 2 + clusters_needed cfg (take (Suc k) tab)"
    if "k < 5" for k
    unfolding t using fit' that l by (intro init_end_unat) simp_all
  show len: "length (info (uf2_init cfg ienv)) = 5"
    by (simp add: t init_starting_clusters_def l)
  show "FID_UF2 (info (uf2_init cfg ienv)) = 4"
    by (simp add: FID_UF2_def NUM_FILES_def len)
  show "FID_MEASURMENT_DATA (info (uf2_init cfg ienv)) = 3"
    by (simp add: FID_MEASURMENT_DATA_def NUM_FILES_def len)
  show "2 \<le> unat (cluster_start (info (uf2_init cfg ienv) ! k))" if "k < 5"
    using S [OF that] by simp
  show "1 \<le> unat (cluster_end (info (uf2_init cfg ienv) ! k))" if "k < 5"
    using E [OF that] by simp
  show "unat (cluster_end (info (uf2_init cfg ienv) ! k)) < 65535" if "k < 5"
    using E [OF that] clusters_needed_take_le [of cfg "Suc k" tab] fit' by simp
  show "unat (cluster_end (info (uf2_init cfg ienv) ! j))
            < unat (cluster_start (info (uf2_init cfg ienv) ! k))" if "j < k" "k < 5"
  proof -
    have "j < 5" using that by simp
    moreover have "clusters_needed cfg (take (Suc j) tab) \<le> clusters_needed cfg (take k tab)"
      using that by (intro clusters_needed_take_mono) simp
    ultimately show ?thesis using E [of j] S [OF that(2)] by simp
  qed
  show "unat (cluster_end (info (uf2_init cfg ienv) ! j))
            \<le> unat (cluster_end (info (uf2_init cfg ienv) ! k))" if "j \<le> k" "k < 5"
  proof -
    have "j < 5" using that by simp
    moreover have "clusters_needed cfg (take (Suc j) tab) \<le> clusters_needed cfg (take (Suc k) tab)"
      using that by (intro clusters_needed_take_mono) simp
    ultimately show ?thesis using E [of j] E [OF that(2)] by simp
  qed
  show "unat (cluster_end (info (uf2_init cfg ienv) ! k)) + 1 =
            unat (cluster_start (info (uf2_init cfg ienv) ! k))
              + clusters_of cfg (info (uf2_init cfg ienv) ! k)" if "k < 5"
  proof -
    have "size' (info (uf2_init cfg ienv) ! k) = size' (tab ! k)"
      using that l by (simp add: t init_starting_clusters_def loop_fields)
    then have "clusters_of cfg (info (uf2_init cfg ienv) ! k) = clusters_of cfg (tab ! k)"
      by (simp add: clusters_of_def)
    then show ?thesis
      using E [OF that] S [OF that] clusters_needed_take_Suc [of k tab cfg] that l by simp
  qed
qed

lemma example_ghostfat_length: "length (info example_ghostfat) = 5"
  using arg_cong [OF example_ghostfat_info(1), of length] by simp

lemma example_ghostfat_fields:
  "size' (info example_ghostfat ! 0) = 20"
  "cluster_start (info example_ghostfat ! 0) = 2"
  "cluster_end (info example_ghostfat ! 0) = 2"
  "size' (info example_ghostfat ! 1) = 130"
  "cluster_start (info example_ghostfat ! 1) = 3"
  "cluster_end (info example_ghostfat ! 1) = 3"
  "size' (info example_ghostfat ! 2) = 97"
  "cluster_start (info example_ghostfat ! 2) = 4"
  "cluster_end (info example_ghostfat ! 2) = 4"
  "size' (info example_ghostfat ! 3) = 2048"
  "cluster_start (info example_ghostfat ! 3) = 5"
  "cluster_end (info example_ghostfat ! 3) = 8"
  "size' (info example_ghostfat ! 4) = 0x200000"
  "cluster_start (info example_ghostfat ! 4) = 9"
  "cluster_end (info example_ghostfat ! 4) = 4104"
  using arg_cong [OF example_ghostfat_info(1), of "\<lambda>l. l ! 0"]
        arg_cong [OF example_ghostfat_info(1), of "\<lambda>l. l ! 1"]
        arg_cong [OF example_ghostfat_info(1), of "\<lambda>l. l ! 2"]
        arg_cong [OF example_ghostfat_info(1), of "\<lambda>l. l ! 3"]
        arg_cong [OF example_ghostfat_info(1), of "\<lambda>l. l ! 4"]
  by (simp_all add: example_ghostfat_length)

lemma example_ghostfat_fields1:
  "size' (info example_ghostfat ! Suc 0) = 130"
  "cluster_start (info example_ghostfat ! Suc 0) = 3"
  "cluster_end (info example_ghostfat ! Suc 0) = 3"
  using example_ghostfat_fields(4,5,6) by simp_all

lemma clusters_needed_5:
  "length tab = 5 \<Longrightarrow>
   clusters_needed cfg tab = clusters_of cfg (tab ! 0) + clusters_of cfg (tab ! 1)
     + clusters_of cfg (tab ! 2) + clusters_of cfg (tab ! 3) + clusters_of cfg (tab ! 4)"
proof -
  assume l: "length tab = 5"
  then have "tab = [tab ! 0, tab ! 1, tab ! 2, tab ! 3, tab ! 4]"
    by (intro nth_equalityI) (auto simp add: nth_Cons' less_Suc_eq numeral_eq_Suc)
  then have "clusters_needed cfg tab = clusters_needed cfg [tab ! 0, tab ! 1, tab ! 2, tab ! 3, tab ! 4]"
    by simp
  then show ?thesis by (simp add: clusters_needed_def)
qed

lemma example_ghostfat_needed: "clusters_needed example_cfg (info example_ghostfat) = 4103"
  by (simp add: clusters_needed_5 [OF example_ghostfat_length] clusters_of_def
        example_ghostfat_fields example_ghostfat_fields1 example_geometry UF2_DIV_CEIL_def)

lemma example_fat_entry_cluster:
  "fat_entry_cluster example_cfg 1 i = i"
  "fat_entry_cluster example_cfg 17 i = i + 4096"
  "fat_entry_cluster example_cfg 259 i = i"
  by (simp_all add: fat_entry_cluster_def Let_def example_geometry FS_START_FAT0_SECTOR_def
        BPB_RESERVED_SECTORS_def FAT_ENTRIES_PER_SECTOR_def BPB_SECTOR_SIZE_def FAT_ENTRY_SIZE_def)

text \<open>
  Claim C2, as stated, on the volume whose measurement-data size is \<open>0xFFFD00\<close>: there
  \<open>CURRENT.UF2\<close> has the clusters 2 to 4097 and the information file has cluster 2
  alone.  Entry 2 of the first FAT sector is the entry of cluster 2, which lies in the
  range of \<open>CURRENT.UF2\<close> and is not its \<open>cluster_end\<close>; the entry is \<open>0xFFFF\<close>, not 3.
\<close>

theorem fat_entry_counterexample:
  "static_asserts example_cfg (info example_large_ghostfat) \<and>
   1 \<le> unat (1 :: u32) \<and> unat (1 :: u32) < FS_START_ROOTDIR_SECTOR example_cfg \<and>
   fat_entry_cluster example_cfg 1 2 = 2 \<and>
   2 \<in> cluster_range (info example_large_ghostfat ! 4) \<and>
   unat (cluster_end (info example_large_ghostfat ! 4)) = 4097 \<and>
   read16 (uf2_read_block example_cfg example_read_env example_large_ghostfat 1) 2 = 0xFFFF"
proof -
  have f: "BPB_SECTORS_PER_FAT example_cfg < 2 ^ 16" by (simp add: example_geometry)
  have b: "1 \<le> unat (1 :: u32)" "unat (1 :: u32) < FS_START_ROOTDIR_SECTOR example_cfg"
    by (simp_all add: example_geometry)
  have "info example_large_ghostfat ! 0 \<in> set (info example_large_ghostfat)"
    by (rule nth_mem) (simp add: example_large_ghostfat_length)
  moreover have "unat (cluster_end (info example_large_ghostfat ! 0)) = fat_entry_cluster example_cfg 1 2"
    by (simp add: example_large_fields example_fat_entry_cluster)
  ultimately have ex: "\<exists>f \<in> set (info example_large_ghostfat).
                         unat (cluster_end f) = fat_entry_cluster example_cfg 1 2"
    by blast
  have e: "read16 (uf2_read_block example_cfg example_read_env example_large_ghostfat 1) 2 = 0xFFFF"
    using fat_entry [OF f b, of 2 example_read_env example_large_ghostfat] ex
    by (simp only: if_True)
  show ?thesis
    using e b
    by (simp add: example_static_asserts example_large_ghostfat_length example_fat_entry_cluster
          cluster_range_def example_large_fields)
qed

text \<open>
  Claim C2, amended.  After \<open>uf2_init\<close>, when the static assertions hold and the table
  needs fewer than 65534 clusters in all, for every FAT sector of either copy and every
  index \<open>i\<close> in it, with \<open>c\<close> the cluster of that entry: if \<open>c\<close> lies in the range of a
  file and is not that file's \<open>cluster_end\<close>, the entry is \<open>c + 1\<close>; if \<open>c\<close> is the
  \<open>cluster_end\<close> of a file, the entry is \<open>0xFFFF\<close>; if \<open>c\<close> is above the \<open>cluster_end\<close>
  of every file, the entry is 0; the entry of cluster 0 is \<open>0xFFF8\<close> (the media
  descriptor byte below \<open>0xFF\<close>) and the entry of cluster 1 is \<open>0xFFFF\<close>.
\<close>

theorem uf2_read_block_fat_entries:
  assumes sa: "static_asserts cfg (info (uf2_init cfg ienv))"
    and fit: "clusters_needed cfg (info (uf2_init cfg ienv)) + 2 < 65536"
    and b: "1 \<le> unat block_no" "unat block_no < FS_START_ROOTDIR_SECTOR cfg"
    and i: "i < FAT_ENTRIES_PER_SECTOR"
  shows "(\<forall>k. k < NUM_FILES (info (uf2_init cfg ienv)) \<and>
              fat_entry_cluster cfg block_no i \<in> cluster_range (info (uf2_init cfg ienv) ! k) \<and>
              fat_entry_cluster cfg block_no i \<noteq> unat (cluster_end (info (uf2_init cfg ienv) ! k)) \<longrightarrow>
            unat (read16 (uf2_read_block cfg env (uf2_init cfg ienv) block_no) i) =
              fat_entry_cluster cfg block_no i + 1) \<and>
         (\<forall>k. k < NUM_FILES (info (uf2_init cfg ienv)) \<and>
              fat_entry_cluster cfg block_no i = unat (cluster_end (info (uf2_init cfg ienv) ! k)) \<longrightarrow>
            read16 (uf2_read_block cfg env (uf2_init cfg ienv) block_no) i = 0xFFFF) \<and>
         ((\<forall>k. k < NUM_FILES (info (uf2_init cfg ienv)) \<longrightarrow>
              unat (cluster_end (info (uf2_init cfg ienv) ! k)) < fat_entry_cluster cfg block_no i) \<longrightarrow>
            read16 (uf2_read_block cfg env (uf2_init cfg ienv) block_no) i = 0) \<and>
         (fat_entry_cluster cfg block_no i = 0 \<longrightarrow>
            read16 (uf2_read_block cfg env (uf2_init cfg ienv) block_no) i = 0xFFF8) \<and>
         (fat_entry_cluster cfg block_no i = 1 \<longrightarrow>
            read16 (uf2_read_block cfg env (uf2_init cfg ienv) block_no) i = 0xFFFF)"
proof -
  let ?st = "uf2_init cfg ienv"
  let ?c = "fat_entry_cluster cfg block_no i"
  let ?e = "read16 (uf2_read_block cfg env ?st block_no) i"
  let ?E = "\<lambda>k. unat (cluster_end (info ?st ! k))"
  note T = uf2_init_table [OF fit]
  have n: "NUM_FILES (info ?st) = 5" by (simp add: NUM_FILES_def T(1))
  have f: "BPB_SECTORS_PER_FAT cfg < 2 ^ 16"
    using sa by (rule static_asserts_sectors_per_fat)
  have i': "i < 256"
    using i by (simp add: FAT_ENTRIES_PER_SECTOR_def BPB_SECTOR_SIZE_def FAT_ENTRY_SIZE_def)
  have fe: "?e =
     (if \<exists>f \<in> set (info ?st). unat (cluster_end f) = ?c then 0xFFFF
      else if ?c = 1 then 0xFFFF
      else if ?c = 0 then 0xFFF8
      else if ?E 4 + 1 \<le> ?c then 0
      else of_nat (?c + 1))"
    using fat_entry [OF f b i', of env ?st] by (simp only: T(2))
  have ex: "(\<exists>f \<in> set (info ?st). unat (cluster_end f) = ?c) \<longleftrightarrow> (\<exists>k<5. ?E k = ?c)"
    by (simp only: set_conv_nth T(1)) blast
  have p1: "unat ?e = ?c + 1" if k: "k < 5" and r: "?c \<in> cluster_range (info ?st ! k)"
    and ne: "?c \<noteq> ?E k" for k
  proof -
    have lo: "unat (cluster_start (info ?st ! k)) \<le> ?c" and hi: "?c < ?E k"
      using r ne by (simp_all add: cluster_range_def)
    have no: "\<not> (\<exists>j<5. ?E j = ?c)"
    proof
      assume "\<exists>j<5. ?E j = ?c"
      then obtain j where j: "j < 5" "?E j = ?c" by blast
      consider "j < k" | "k \<le> j" by linarith
      then show False
      proof cases
        case 1
        from T(7) [OF 1 k] lo j(2) show False by simp
      next
        case 2
        from T(8) [OF 2 j(1)] hi j(2) show False by simp
      qed
    qed
    have c2: "2 \<le> ?c" using T(4) [OF k] lo by simp
    have "?E k \<le> ?E 4" using k by (intro T(8)) simp_all
    then have lt: "\<not> ?E 4 + 1 \<le> ?c" using hi by simp
    have "?E k < 65535" using k by (rule T(6))
    then have small: "?c + 1 < 2 ^ 16" using hi by simp
    have "?e = of_nat (?c + 1)"
      using no c2 lt by (simp only: fe ex) simp
    then show ?thesis
      using small by (simp only: unat_of_nat) simp
  qed
  have p2: "?e = 0xFFFF" if "k < 5" "?c = ?E k" for k
  proof -
    have "\<exists>j<5. ?E j = ?c" using that by auto
    then have "\<exists>f \<in> set (info ?st). unat (cluster_end f) = ?c" unfolding ex .
    then show ?thesis by (simp only: fe if_True)
  qed
  have p3: "?e = 0" if a: "\<forall>k. k < 5 \<longrightarrow> ?E k < ?c"
  proof -
    have no: "\<not> (\<exists>j<5. ?E j = ?c)" using a by auto
    have "1 \<le> ?E 0" by (rule T(5)) simp
    moreover have "?E 0 < ?c" using a by simp
    ultimately have c2: "2 \<le> ?c" by simp
    have "?E 4 + 1 \<le> ?c" using a by (simp add: Suc_le_eq)
    then show ?thesis using no c2 by (simp only: fe ex) simp
  qed
  have p4: "?e = 0xFFF8" if "?c = 0"
  proof -
    have "\<not> (\<exists>j<5. ?E j = ?c)" using T(5) that by fastforce
    then have "\<not> (\<exists>f \<in> set (info ?st). unat (cluster_end f) = ?c)" unfolding ex .
    then have "?e = (if ?c = 1 then 0xFFFF else if ?c = 0 then 0xFFF8
                     else if ?E 4 + 1 \<le> ?c then 0 else of_nat (?c + 1))"
      by (simp only: fe if_False)
    then show ?thesis using that by simp
  qed
  have p5: "?e = 0xFFFF" if "?c = 1"
    using that by (simp only: fe) simp
  show ?thesis
    unfolding n using p1 p2 p3 p4 p5 by blast
qed

theorem uf2_read_block_fat_entries_witness:
  "static_asserts example_cfg (info example_ghostfat) \<and>
   clusters_needed example_cfg (info example_ghostfat) + 2 < 65536 \<and>
   unat (17 :: u32) < FS_START_ROOTDIR_SECTOR example_cfg \<and>
   unat (259 :: u32) < FS_START_ROOTDIR_SECTOR example_cfg \<and>
   fat_entry_cluster example_cfg 1 5 = 5 \<and>
   5 \<in> cluster_range (info example_ghostfat ! 3) \<and>
   unat (cluster_end (info example_ghostfat ! 3)) = 8 \<and>
   unat (read16 (uf2_read_block example_cfg example_read_env example_ghostfat 1) 5) = 6 \<and>
   fat_entry_cluster example_cfg 259 5 = 5 \<and>
   unat (read16 (uf2_read_block example_cfg example_read_env example_ghostfat 259) 5) = 6 \<and>
   fat_entry_cluster example_cfg 1 8 = 8 \<and>
   read16 (uf2_read_block example_cfg example_read_env example_ghostfat 1) 8 = 0xFFFF \<and>
   fat_entry_cluster example_cfg 17 8 = 4104 \<and>
   unat (cluster_end (info example_ghostfat ! 4)) = 4104 \<and>
   read16 (uf2_read_block example_cfg example_read_env example_ghostfat 17) 8 = 0xFFFF \<and>
   fat_entry_cluster example_cfg 17 9 = 4105 \<and>
   read16 (uf2_read_block example_cfg example_read_env example_ghostfat 17) 9 = 0 \<and>
   read16 (uf2_read_block example_cfg example_read_env example_ghostfat 1) 0 = 0xFFF8 \<and>
   read16 (uf2_read_block example_cfg example_read_env example_ghostfat 1) 1 = 0xFFFF"
proof -
  have sa: "static_asserts example_cfg (info (uf2_init example_cfg example_init_env))"
    using example_ghostfat_length by (intro example_static_asserts) (simp add: example_ghostfat_def)
  have fit: "clusters_needed example_cfg (info (uf2_init example_cfg example_init_env)) + 2 < 65536"
    using example_ghostfat_needed by (simp add: example_ghostfat_def)
  have b: "1 \<le> unat (1 :: u32)" "unat (1 :: u32) < FS_START_ROOTDIR_SECTOR example_cfg"
          "1 \<le> unat (17 :: u32)" "unat (17 :: u32) < FS_START_ROOTDIR_SECTOR example_cfg"
          "1 \<le> unat (259 :: u32)" "unat (259 :: u32) < FS_START_ROOTDIR_SECTOR example_cfg"
    by (simp_all add: example_geometry)
  have i: "i < 10 \<Longrightarrow> i < FAT_ENTRIES_PER_SECTOR" for i
    by (simp add: FAT_ENTRIES_PER_SECTOR_def BPB_SECTOR_SIZE_def FAT_ENTRY_SIZE_def)
  have n: "NUM_FILES (info example_ghostfat) = 5"
    by (simp add: NUM_FILES_def example_ghostfat_length)
  have beyond: "\<forall>k. k < NUM_FILES (info example_ghostfat) \<longrightarrow>
                   unat (cluster_end (info example_ghostfat ! k)) < fat_entry_cluster example_cfg 17 9"
  proof (intro allI impI)
    fix k assume "k < NUM_FILES (info example_ghostfat)"
    then have "k = 0 \<or> k = 1 \<or> k = 2 \<or> k = 3 \<or> k = 4" unfolding n by arith
    then show "unat (cluster_end (info example_ghostfat ! k)) < fat_entry_cluster example_cfg 17 9"
      by (auto simp add: example_ghostfat_fields example_ghostfat_fields1 example_fat_entry_cluster)
  qed
  note w1 = uf2_read_block_fat_entries [OF sa fit b(1,2) i, of 5 example_read_env,
              folded example_ghostfat_def]
  note w1' = uf2_read_block_fat_entries [OF sa fit b(5,6) i, of 5 example_read_env,
              folded example_ghostfat_def]
  note w2 = uf2_read_block_fat_entries [OF sa fit b(1,2) i, of 8 example_read_env,
              folded example_ghostfat_def]
  note w2' = uf2_read_block_fat_entries [OF sa fit b(3,4) i, of 8 example_read_env,
              folded example_ghostfat_def]
  note w3 = uf2_read_block_fat_entries [OF sa fit b(3,4) i, of 9 example_read_env,
              folded example_ghostfat_def]
  note w4 = uf2_read_block_fat_entries [OF sa fit b(1,2) i, of 0 example_read_env,
              folded example_ghostfat_def]
  note w5 = uf2_read_block_fat_entries [OF sa fit b(1,2) i, of 1 example_read_env,
              folded example_ghostfat_def]
  have r: "5 \<in> cluster_range (info example_ghostfat ! 3)"
    by (simp add: cluster_range_def example_ghostfat_fields)
  have e1: "unat (read16 (uf2_read_block example_cfg example_read_env example_ghostfat 1) 5) = 6"
    using w1 [THEN conjunct1, rule_format, of 3] r
    by (simp add: n example_fat_entry_cluster example_ghostfat_fields)
  have e1': "unat (read16 (uf2_read_block example_cfg example_read_env example_ghostfat 259) 5) = 6"
    using w1' [THEN conjunct1, rule_format, of 3] r
    by (simp add: n example_fat_entry_cluster example_ghostfat_fields)
  have e2: "read16 (uf2_read_block example_cfg example_read_env example_ghostfat 1) 8 = 0xFFFF"
    using w2 [THEN conjunct2, THEN conjunct1, rule_format, of 3]
    by (simp add: n example_fat_entry_cluster example_ghostfat_fields)
  have e2': "read16 (uf2_read_block example_cfg example_read_env example_ghostfat 17) 8 = 0xFFFF"
    using w2' [THEN conjunct2, THEN conjunct1, rule_format, of 4]
    by (simp add: n example_fat_entry_cluster example_ghostfat_fields)
  have e3: "read16 (uf2_read_block example_cfg example_read_env example_ghostfat 17) 9 = 0"
    using w3 [THEN conjunct2, THEN conjunct2, THEN conjunct1] beyond by simp
  have e4: "read16 (uf2_read_block example_cfg example_read_env example_ghostfat 1) 0 = 0xFFF8"
    using w4 [THEN conjunct2, THEN conjunct2, THEN conjunct2, THEN conjunct1]
    by (simp add: example_fat_entry_cluster)
  have e5: "read16 (uf2_read_block example_cfg example_read_env example_ghostfat 1) 1 = 0xFFFF"
    using w5 [THEN conjunct2, THEN conjunct2, THEN conjunct2, THEN conjunct2]
    by (simp add: example_fat_entry_cluster)
  show ?thesis
    using sa fit b r e1 e1' e2 e2' e3 e4 e5
    by (simp add: example_ghostfat_def [symmetric] example_fat_entry_cluster example_ghostfat_fields)
qed

section \<open>Properties of the data sectors\<close>































end
